theory Spec2Isabelle
  imports Main
begin

section \<open>Python values and library calls used by the installer\<close>

text \<open>
  The installer (src/core/server_manager.py, src/core/vscode\_config.py,
  src/core/system\_checker.py) is a sequence of subprocess calls, file accesses and HTTP
  requests wrapped in try/except blocks.  The embedding makes each of these explicit:
  \<^item> what the machine answers (the outcome of a subprocess, whether a path exists, an HTTP
    response) is read from a \<open>host\<close> record of oracles;
  \<^item> what the program changes (the commands it has issued, the files it has written, the
    directories it has created) is threaded through a \<open>world\<close> record;
  \<^item> an exception is the \<open>Inl\<close> of a sum type, and every \<open>try/except\<close> of the
    source is a \<open>case\<close> on it.
  Calls to the logger only format and append text to log files; they are left out, but the
  expressions evaluated for a log message are kept where they can raise.
\<close>

subsection \<open>Strings\<close>

definition get_or :: "'a option \<Rightarrow> 'a \<Rightarrow> 'a" where
  \<comment> \<open>\<open>d.get(key, default)\<close> on a key whose value is None when the key is missing\<close>
  "get_or v d = (case v of None \<Rightarrow> d | Some x \<Rightarrow> x)"

definition startswith :: "string \<Rightarrow> string \<Rightarrow> bool" where
  \<comment> \<open>\<open>s.startswith(p)\<close>\<close>
  "startswith s p = (take (length p) s = p)"

fun contains :: "string \<Rightarrow> string \<Rightarrow> bool" where
  \<comment> \<open>\<open>p in s\<close> for two strings\<close>
  "contains [] p = (p = [])"
| "contains (c # cs) p = (startswith (c # cs) p \<or> contains cs p)"

fun replace_from :: "string \<Rightarrow> string \<Rightarrow> nat \<Rightarrow> string \<Rightarrow> string" where
  \<comment> \<open>the scan of \<open>s.replace(old, new)\<close>: the counter is the number of characters of a
      matched occurrence still to be skipped\<close>
  "replace_from old new k [] = []"
| "replace_from old new (Suc k) (c # cs) = replace_from old new k cs"
| "replace_from old new 0 (c # cs) =
     (if startswith (c # cs) old then new @ replace_from old new (length old - 1) cs
      else c # replace_from old new 0 cs)"

definition py_replace :: "string \<Rightarrow> string \<Rightarrow> string \<Rightarrow> string" where
  \<comment> \<open>\<open>s.replace(old, new)\<close>; every call site passes a non-empty literal \<open>old\<close>\<close>
  "py_replace s old new = replace_from old new 0 s"

definition lower_char :: "char \<Rightarrow> char" where
  "lower_char c =
     (let n = (of_char c :: nat) in if 65 \<le> n \<and> n \<le> 90 then char_of (n + 32) else c)"

definition upper_char :: "char \<Rightarrow> char" where
  "upper_char c =
     (let n = (of_char c :: nat) in if 97 \<le> n \<and> n \<le> 122 then char_of (n - 32) else c)"

definition py_lower :: "string \<Rightarrow> string" where
  \<comment> \<open>\<open>s.lower()\<close> on ASCII text\<close>
  "py_lower s = map lower_char s"

definition is_space :: "char \<Rightarrow> bool" where
  \<comment> \<open>\<open>str.isspace\<close> on the code points below 256\<close>
  "is_space c = List.member [9, 10, 11, 12, 13, 28, 29, 30, 31, 32, 133, 160] (of_char c :: nat)"

definition py_strip :: "string \<Rightarrow> string" where
  \<comment> \<open>\<open>s.strip()\<close>\<close>
  "py_strip s = rev (dropWhile is_space (rev (dropWhile is_space s)))"

definition lstrip_char :: "char \<Rightarrow> string \<Rightarrow> string" where
  \<comment> \<open>\<open>s.lstrip(c)\<close> for a one-character argument\<close>
  "lstrip_char c s = dropWhile (\<lambda>x. x = c) s"

definition split_first :: "char \<Rightarrow> string \<Rightarrow> string" where
  \<comment> \<open>\<open>s.split(c)[0]\<close>: the text before the first separator (the whole text when there is
      none); the list \<open>split\<close> returns is never empty, so the index cannot fail\<close>
  "split_first c s = takeWhile (\<lambda>x. x \<noteq> c) s"

definition is_digit :: "char \<Rightarrow> bool" where
  "is_digit c = (let n = (of_char c :: nat) in 48 \<le> n \<and> n \<le> 57)"

fun digits10 :: "nat \<Rightarrow> string" where
  "digits10 n =
     (if n < 10 then [char_of (48 + n)] else digits10 (n div 10) @ [char_of (48 + n mod 10)])"

declare digits10.simps [simp del]

definition str_int :: "int \<Rightarrow> string" where
  \<comment> \<open>\<open>str(i)\<close> of an integer, as an f-string renders it\<close>
  "str_int i = (if i < 0 then CHR ''-'' # digits10 (nat (- i)) else digits10 (nat i))"

fun int_body :: "string \<Rightarrow> bool" where
  \<comment> \<open>the digits of an integer literal accepted by \<open>int()\<close>: digits, single underscores
      only between two digits\<close>
  "int_body [] = False"
| "int_body [c] = is_digit c"
| "int_body (c # d # cs) =
     (is_digit c \<and> (if d = CHR ''_'' then int_body cs else int_body (d # cs)))"

definition digits_value :: "string \<Rightarrow> nat" where
  "digits_value s = foldl (\<lambda>acc c. 10 * acc + (of_char c - 48)) 0 (filter is_digit s)"

definition py_int :: "string \<Rightarrow> int option" where
  \<comment> \<open>\<open>int(s)\<close>: \<open>None\<close> is the ValueError\<close>
  "py_int s =
     (let t = py_strip s;
          neg = (t \<noteq> [] \<and> hd t = CHR ''-'');
          body = (if t \<noteq> [] \<and> (hd t = CHR ''-'' \<or> hd t = CHR ''+'') then tl t else t)
      in if int_body body
         then Some (if neg then - int (digits_value body) else int (digits_value body))
         else None)"

subsection \<open>Exceptions\<close>

text \<open>
  The source distinguishes FileNotFoundError, subprocess.TimeoutExpired and ValueError (which
  UnicodeDecodeError is a subclass of) from the rest; \<open>Exception\<close> stands for any other
  subclass of Exception.  The string is \<open>str(e)\<close>; the exceptions that the
  interpreter itself raises (TypeError, AttributeError, KeyError) carry the text of
  CPython 3.11.
\<close>

datatype exn =
  FileNotFoundError string | TimeoutExpired string | ValueError string | Exception string

fun str_exn :: "exn \<Rightarrow> string" where
  "str_exn (FileNotFoundError m) = m"
| "str_exn (TimeoutExpired m) = m"
| "str_exn (ValueError m) = m"
| "str_exn (Exception m) = m"

type_synonym install_result = "bool \<times> string"

subsection \<open>JSON documents\<close>

datatype json =
  JNull | JBool bool | JNum int | JStr string | JArr "json list" | JObj "(string \<times> json) list"

definition quoted :: "string \<Rightarrow> string" where
  \<comment> \<open>the text between two apostrophes\<close>
  "quoted s = [CHR 0x27] @ s @ [CHR 0x27]"

definition type_name :: "json \<Rightarrow> string" where
  \<comment> \<open>\<open>type(v).__name__\<close> of a decoded JSON value\<close>
  "type_name v =
     (case v of
        JNull \<Rightarrow> ''NoneType''
      | JBool b \<Rightarrow> ''bool''
      | JNum n \<Rightarrow> ''int''
      | JStr s \<Rightarrow> ''str''
      | JArr xs \<Rightarrow> ''list''
      | JObj kvs \<Rightarrow> ''dict'')"

datatype file_content = JsonFile json | NotJson string
  \<comment> \<open>a file that \<open>json.load\<close> reads, or one on which it raises (with the message)\<close>

fun dict_get :: "(string \<times> 'v) list \<Rightarrow> string \<Rightarrow> 'v option" where
  "dict_get [] k = None"
| "dict_get ((k', v) # kvs) k = (if k' = k then Some v else dict_get kvs k)"

fun dict_set :: "string \<Rightarrow> 'v \<Rightarrow> (string \<times> 'v) list \<Rightarrow> (string \<times> 'v) list" where
  \<comment> \<open>\<open>d[k] = v\<close>: an existing key keeps its position, a new key goes last\<close>
  "dict_set k v [] = [(k, v)]"
| "dict_set k v ((k', v') # kvs) =
     (if k' = k then (k, v) # kvs else (k', v') # dict_set k v kvs)"

subsection \<open>The host and the world\<close>

datatype captured = Utf8 string | BadBytes string
  \<comment> \<open>captured output: bytes that decode to the text, or bytes on which decoding raises
      UnicodeDecodeError with the message\<close>

record completed =
  returncode :: int
  stdout :: captured
  stderr :: captured

record response =
  status_code :: int
  body_text :: string
  body_json :: "exn + json"
  \<comment> \<open>\<open>response.json()\<close>: the decoded body, or the exception decoding raises\<close>

record host =
  is_windows :: bool
  \<comment> \<open>\<open>platform.system() == "Windows"\<close>\<close>
  run :: "nat \<Rightarrow> string list \<Rightarrow> exn + completed"
  \<comment> \<open>\<open>subprocess.run(argv, capture_output=True, ...)\<close> as the n-th subprocess of the session\<close>
  path_exists :: "nat \<Rightarrow> string \<Rightarrow> bool"
  \<comment> \<open>\<open>Path.exists\<close> of a path outside the IDE settings, after n subprocesses\<close>
  home :: string
  environ :: "string \<Rightarrow> string option"
  mkdir_error :: "string \<Rightarrow> exn option"
  \<comment> \<open>the exception \<open>Path.mkdir(parents=True, exist_ok=True)\<close> raises on a path, if any\<close>
  write_error :: "string \<Rightarrow> exn option"
  \<comment> \<open>the exception opening a path for writing raises, if any\<close>
  http_get :: "string \<Rightarrow> exn + response"
  \<comment> \<open>\<open>requests.get(url, ..., timeout=8)\<close>\<close>
  set_order :: "string list \<Rightarrow> string list"
  \<comment> \<open>the order in which a Python \<open>set\<close> built from the list is iterated\<close>
  path_of :: "string list \<Rightarrow> string"
  \<comment> \<open>\<open>str(Path(a, b, ...))\<close>, which is \<open>str(Path(a) / b / ...)\<close>: the parts joined and
      brought to the normal form of pathlib on this platform\<close>

datatype cmd_val = CmdStr string | CmdList "string list"
  \<comment> \<open>the value under "command": a program name (npm servers) or an argv (docker servers)\<close>

record server_dict =
  sd_name :: "string option"
  sd_command :: "cmd_val option"
  sd_args :: "string list option"
  sd_env :: "(string \<times> string) list option"
  \<comment> \<open>the dictionary handed to the IDE writer, read with \<open>.get\<close>: None is a missing key\<close>

record probe_result =
  status :: bool
  message :: string
  details :: string
  daemon_running :: "bool option"
  installed :: "bool option"

record world =
  calls :: "string list list"
  \<comment> \<open>the argv of every subprocess started so far, oldest first\<close>
  files :: "string \<Rightarrow> file_content option"
  \<comment> \<open>the IDE settings files\<close>
  dirs :: "string list"
  \<comment> \<open>the directories created with mkdir\<close>
  writer_calls :: "(string \<times> server_dict) list"
  \<comment> \<open>the invocations of \<open>add_server_to_extension\<close> so far (extension, dictionary)\<close>
  results_docker :: "probe_result option"
  \<comment> \<open>\<open>SystemChecker.results["docker"]\<close>, set by an earlier \<open>check_all\<close>\<close>
  auto_fix :: bool
  \<comment> \<open>\<open>SystemChecker.auto_fix\<close>\<close>

definition subprocess_run :: "host \<Rightarrow> string list \<Rightarrow> world \<Rightarrow> (exn + completed) \<times> world" where
  \<comment> \<open>\<open>subprocess.run(argv, capture_output=True)\<close>: the output is bytes\<close>
  "subprocess_run h argv w = (run h (length (calls w)) argv, w\<lparr>calls := calls w @ [argv]\<rparr>)"

record completed_text =
  t_returncode :: int
  t_stdout :: string
  t_stderr :: string

definition decode_completed :: "completed \<Rightarrow> exn + completed_text" where
  "decode_completed c =
     (case stdout c of
        BadBytes m \<Rightarrow> Inl (ValueError m)
      | Utf8 out \<Rightarrow>
          (case stderr c of
             BadBytes m \<Rightarrow> Inl (ValueError m)
           | Utf8 err \<Rightarrow>
               Inr \<lparr>t_returncode = returncode c, t_stdout = out, t_stderr = err\<rparr>))"

definition subprocess_run_text ::
    "host \<Rightarrow> string list \<Rightarrow> world \<Rightarrow> (exn + completed_text) \<times> world" where
  \<comment> \<open>\<open>subprocess.run(argv, capture_output=True, text=True)\<close>: the call decodes the
      output itself, so undecodable output is an exception of the call\<close>
  "subprocess_run_text h argv w =
     (case subprocess_run h argv w of
        (Inl e, w') \<Rightarrow> (Inl e, w')
      | (Inr c, w') \<Rightarrow> (decode_completed c, w'))"

definition decode :: "captured \<Rightarrow> exn + string" where
  \<comment> \<open>\<open>bytes.decode()\<close>\<close>
  "decode b = (case b of Utf8 s \<Rightarrow> Inr s | BadBytes m \<Rightarrow> Inl (ValueError m))"

definition sep :: "host \<Rightarrow> string" where
  "sep h = (if is_windows h then [CHR 0x5C] else ''/'')"

definition path_join :: "host \<Rightarrow> string \<Rightarrow> string \<Rightarrow> string" where
  \<comment> \<open>\<open>Path(a) / b\<close> and \<open>os.path.join(a, b)\<close> rendered as text, for a relative \<open>b\<close>
      made of plain names\<close>
  "path_join h a b =
     (if a = [] then b
      else if startswith (rev a) (rev (sep h)) then a @ b
      else a @ sep h @ b)"

definition mkdir :: "host \<Rightarrow> string \<Rightarrow> world \<Rightarrow> (exn + unit) \<times> world" where
  "mkdir h p w =
     (case mkdir_error h p of
        Some e \<Rightarrow> (Inl e, w)
      | None \<Rightarrow> (Inr (), w\<lparr>dirs := dirs w @ [p]\<rparr>))"

section \<open>The IDE configuration writer (src/core/vscode\_config.py)\<close>

record ext_info =
  ext_name :: string
  ext_id :: string
  config_path :: string
  config_file :: string

definition get_cline_config_path :: "host \<Rightarrow> string" where
  "get_cline_config_path h =
     (if is_windows h
      then foldl (path_join h) (case environ h ''APPDATA'' of Some a \<Rightarrow> a | None \<Rightarrow> '''')
             [''Code'', ''User'', ''globalStorage'', ''saoudrizwan.claude-dev'', ''settings'']
      else foldl (path_join h) (home h)
             [''.config'', ''Code'', ''User'', ''globalStorage'', ''saoudrizwan.claude-dev'',
              ''settings''])"

definition get_roo_config_path :: "host \<Rightarrow> string" where
  "get_roo_config_path h =
     (if is_windows h
      then foldl (path_join h) (case environ h ''APPDATA'' of Some a \<Rightarrow> a | None \<Rightarrow> '''')
             [''Code'', ''User'', ''globalStorage'', ''rooveterinaryinc.roo-cline'', ''settings'']
      else foldl (path_join h) (home h)
             [''.config'', ''Code'', ''User'', ''globalStorage'', ''rooveterinaryinc.roo-cline'',
              ''settings''])"

definition extension_configs :: "host \<Rightarrow> (string \<times> ext_info) list" where
  \<comment> \<open>\<open>self.extension_configs\<close>, built once by the constructor\<close>
  "extension_configs h =
     [(''cline'', \<lparr>ext_name = ''Cline'', ext_id = ''saoudrizwan.claude-dev'',
                   config_path = get_cline_config_path h,
                   config_file = ''cline_mcp_settings.json''\<rparr>),
      (''roo'', \<lparr>ext_name = ''Roo'', ext_id = ''rooveterinaryinc.roo-cline'',
                 config_path = get_roo_config_path h,
                 config_file = ''mcp_settings.json''\<rparr>)]"

definition config_file_path :: "host \<Rightarrow> ext_info \<Rightarrow> string" where
  \<comment> \<open>\<open>Path(ext_info["config_path"]) / ext_info["config_file"]\<close>\<close>
  "config_file_path h ei = path_join h (config_path ei) (config_file ei)"

definition get_extension_config :: "host \<Rightarrow> string \<Rightarrow> world \<Rightarrow> json option" where
  \<comment> \<open>None is Python's None: an unknown extension, a missing file, a file that cannot be
      read as JSON (the exception is caught), and a file holding \<open>null\<close>\<close>
  "get_extension_config h extension w =
     (case dict_get (extension_configs h) extension of
        None \<Rightarrow> None
      | Some ei \<Rightarrow>
          (case files w (config_file_path h ei) of
             None \<Rightarrow> None
           | Some (NotJson m) \<Rightarrow> None
           | Some (JsonFile JNull) \<Rightarrow> None
           | Some (JsonFile config) \<Rightarrow> Some config))"

definition save_extension_config :: "host \<Rightarrow> string \<Rightarrow> json \<Rightarrow> world \<Rightarrow> bool \<times> world" where
  "save_extension_config h extension config w =
     (case dict_get (extension_configs h) extension of
        None \<Rightarrow> (False, w)
      | Some ei \<Rightarrow>
          (case mkdir h (config_path ei) w of
             (Inl e, w1) \<Rightarrow> (False, w1)
           | (Inr u, w1) \<Rightarrow>
               (case write_error h (config_file_path h ei) of
                  Some e \<Rightarrow> (False, w1)
                | None \<Rightarrow>
                    (True, w1\<lparr>files := (files w1)(config_file_path h ei \<mapsto> JsonFile config)\<rparr>))))"

definition ensure_mcp_servers :: "json \<Rightarrow> exn + json" where
  \<comment> \<open>\<open>if "mcpServers" not in current_config: current_config["mcpServers"] = {}\<close>: the
      test raises on a value that is no container, the assignment on a list and on a string\<close>
  "ensure_mcp_servers current_config =
     (case current_config of
        JObj kvs \<Rightarrow>
          (if dict_get kvs ''mcpServers'' = None
           then Inr (JObj (dict_set ''mcpServers'' (JObj []) kvs))
           else Inr (JObj kvs))
      | JArr xs \<Rightarrow>
          (if List.member xs (JStr ''mcpServers'') then Inr (JArr xs)
           else Inl (Exception ''list indices must be integers or slices, not str''))
      | JStr s \<Rightarrow>
          (if contains s ''mcpServers'' then Inr (JStr s)
           else Inl (Exception (quoted ''str'' @ '' object does not support item assignment'')))
      | _ \<Rightarrow>
          Inl (Exception (''argument of type '' @ quoted (type_name current_config)
                          @ '' is not iterable'')))"

definition set_server :: "json \<Rightarrow> string \<Rightarrow> json \<Rightarrow> exn + json" where
  \<comment> \<open>\<open>current_config["mcpServers"][server_name] = entry\<close>: first the subscript, then the
      assignment into what it gives\<close>
  "set_server current_config server_name entry =
     (case current_config of
        JObj kvs \<Rightarrow>
          (case dict_get kvs ''mcpServers'' of
             None \<Rightarrow> Inl (Exception (quoted ''mcpServers''))
           | Some servers \<Rightarrow>
               (case servers of
                  JObj entries \<Rightarrow>
                    Inr (JObj (dict_set ''mcpServers''
                                 (JObj (dict_set server_name entry entries)) kvs))
                | JArr xs \<Rightarrow>
                    Inl (Exception ''list indices must be integers or slices, not str'')
                | _ \<Rightarrow>
                    Inl (Exception (quoted (type_name servers)
                                    @ '' object does not support item assignment''))))
      | JArr xs \<Rightarrow> Inl (Exception ''list indices must be integers or slices, not str'')
      | JStr s \<Rightarrow> Inl (Exception (''string indices must be integers, not '' @ quoted ''str''))
      | _ \<Rightarrow>
          Inl (Exception (quoted (type_name current_config) @ '' object is not subscriptable'')))"

definition entry_json :: "server_dict \<Rightarrow> json" where
  \<comment> \<open>\<open>{"command": server_config.get("command", ""), "args": server_config.get("args", []),
      "env": server_config.get("env", {})}\<close>\<close>
  "entry_json server_config =
     JObj [(''command'', (case sd_command server_config of
                            None \<Rightarrow> JStr ''''
                          | Some (CmdStr s) \<Rightarrow> JStr s
                          | Some (CmdList l) \<Rightarrow> JArr (map JStr l))),
           (''args'', JArr (map JStr (case sd_args server_config of None \<Rightarrow> [] | Some a \<Rightarrow> a))),
           (''env'', JObj (map (\<lambda>(k, v). (k, JStr v))
                             (case sd_env server_config of None \<Rightarrow> [] | Some e \<Rightarrow> e)))]"

definition add_server_to_extension ::
    "host \<Rightarrow> string \<Rightarrow> server_dict \<Rightarrow> world \<Rightarrow> (exn + bool) \<times> world" where
  "add_server_to_extension h extension server_config w0 =
     (let w = w0\<lparr>writer_calls := writer_calls w0 @ [(extension, server_config)]\<rparr>;
          current_config =
            (case get_extension_config h extension w of
               None \<Rightarrow> JObj [(''mcpServers'', JObj [])]
             | Some c \<Rightarrow> c)
      in case ensure_mcp_servers current_config of
           Inl e \<Rightarrow> (Inl e, w)
         | Inr config1 \<Rightarrow>
             (let server_name = (case sd_name server_config of None \<Rightarrow> ''unknown'' | Some n \<Rightarrow> n)
              in if extension = ''cline'' then
                   (case set_server config1 server_name (entry_json server_config) of
                      Inl e \<Rightarrow> (Inl e, w)
                    | Inr config2 \<Rightarrow> apfst Inr (save_extension_config h extension config2 w))
                 else if extension = ''roo'' then
                   (case set_server config1 server_name (entry_json server_config) of
                      Inl e \<Rightarrow> (Inl e, w)
                    | Inr config2 \<Rightarrow> apfst Inr (save_extension_config h extension config2 w))
                 else apfst Inr (save_extension_config h extension config1 w)))"

section \<open>Server descriptors\<close>

text \<open>
  A descriptor is a dictionary read from the catalog (config/servers.json).  Its keys carry
  the types of the catalog's schema; a missing key is \<open>None\<close>, so that the defaults of
  each \<open>.get\<close> and the merge of \<open>dict.update\<close> are as in the source.  Keys outside
  the schema are not modelled.
\<close>

record configuration =
  c_command :: "cmd_val option"
  c_args :: "string list option"
  c_env :: "(string \<times> string) list option"
  c_ports :: "string list option"
  c_volumes :: "string list option"
  c_environment :: "(string \<times> string) list option"
  c_run_mode :: "string option"

definition no_configuration :: configuration where
  \<comment> \<open>the default \<open>{}\<close> of \<open>server_config.get("configuration", {})\<close>\<close>
  "no_configuration =
     \<lparr>c_command = None, c_args = None, c_env = None, c_ports = None, c_volumes = None,
      c_environment = None, c_run_mode = None\<rparr>"

datatype descriptor = Descriptor
  (d_name: "string option")
  (d_type: "string option")
  (d_package: "string option")
  (d_repository: "string option")
  (d_image: "string option")
  (d_configuration: "configuration option")
  (d_fallback: "descriptor option")

definition is_empty_dict :: "descriptor \<Rightarrow> bool" where
  \<comment> \<open>a dictionary with no key is false in a condition\<close>
  "is_empty_dict d =
     (d_name d = None \<and> d_type d = None \<and> d_package d = None \<and> d_repository d = None \<and>
      d_image d = None \<and> d_configuration d = None \<and> d_fallback d = None)"

definition or_else :: "'a option \<Rightarrow> 'a option \<Rightarrow> 'a option" where
  "or_else new old = (case new of None \<Rightarrow> old | Some v \<Rightarrow> Some v)"

definition dict_update :: "descriptor \<Rightarrow> descriptor \<Rightarrow> descriptor" where
  \<comment> \<open>\<open>temp = original.copy(); temp.update(other)\<close>: the keys of \<open>other\<close> win\<close>
  "dict_update original other =
     Descriptor (or_else (d_name other) (d_name original))
                (or_else (d_type other) (d_type original))
                (or_else (d_package other) (d_package original))
                (or_else (d_repository other) (d_repository original))
                (or_else (d_image other) (d_image original))
                (or_else (d_configuration other) (d_configuration original))
                (or_else (d_fallback other) (d_fallback original))"

definition descriptor_dict :: "descriptor \<Rightarrow> server_dict" where
  \<comment> \<open>a descriptor handed to the IDE writer as it is: of the four keys the writer reads, the
      schema has only "name"\<close>
  "descriptor_dict d = \<lparr>sd_name = d_name d, sd_command = None, sd_args = None, sd_env = None\<rparr>"

section \<open>The installation backends (src/core/server\_manager.py)\<close>

subsection \<open>Configuring an installed npm server in the editors\<close>

definition npm_vscode_config :: "descriptor \<Rightarrow> string \<Rightarrow> string \<Rightarrow> server_dict" where
  \<comment> \<open>the dictionary \<open>vscode_config\<close> that \<open>_configure_server_in_vscode\<close> builds\<close>
  "npm_vscode_config server_config server_name package =
     (let config = get_or (d_configuration server_config) no_configuration;
          command = get_or (c_command config) (CmdStr ''npx'');
          args0 = get_or (c_args config) [package];
          args = (if args0 = [] \<or> \<not> List.member args0 package then package # args0
                  else args0)
      in \<lparr>sd_name = Some server_name, sd_command = Some command,
          sd_args = Some args, sd_env = Some (get_or (c_env config) [])\<rparr>)"

definition configure_server_in_vscode :: "host \<Rightarrow> descriptor \<Rightarrow> world \<Rightarrow> world" where
  \<comment> \<open>every call of the writer is in its own try/except, and the whole body in another: the
      function returns nothing and raises nothing\<close>
  "configure_server_in_vscode h server_config w =
     (let server_name = get_or (d_name server_config) ''Unknown'';
          server_type = get_or (d_type server_config) '''';
          package = get_or (d_package server_config) ''''
      in if server_type = ''npm'' \<and> package \<noteq> '''' then
           (let vscode_config = npm_vscode_config server_config server_name package
            in foldl (\<lambda>w' extension. snd (add_server_to_extension h extension vscode_config w'))
                 w [''cline'', ''roo'', ''claude_desktop''])
         else w)"

subsection \<open>npm\<close>

definition auto_install_nodejs :: "host \<Rightarrow> world \<Rightarrow> bool \<times> world" where
  \<comment> \<open>off Windows \<open>subprocess.CREATE_NO_WINDOW\<close> does not exist: the AttributeError is
      caught like every other exception, before any subprocess starts\<close>
  "auto_install_nodejs h w =
     (if \<not> is_windows h then (False, w)
      else (case subprocess_run_text h
                   [''winget'', ''install'', ''OpenJS.NodeJS'', ''--accept-package-agreements'',
                    ''--accept-source-agreements''] w of
              (Inl e, w') \<Rightarrow> (False, w')
            | (Inr result, w') \<Rightarrow> (t_returncode result = 0, w')))"

definition npm_not_found :: string where
  "npm_not_found =
     ''Node.js/npm not found. Please install Node.js from https://nodejs.org/ and restart the application.''"

definition npm_still_unavailable :: string where
  "npm_still_unavailable =
     ''Node.js installed but npm still not available. Please restart the application.''"

definition npm_probe :: "host \<Rightarrow> world \<Rightarrow> install_result option \<times> world" where
  \<comment> \<open>the inner try of \<open>_install_npm_server\<close>: \<open>Some\<close> is a \<open>return\<close> out of the
      backend, \<open>None\<close> falls through to the installation\<close>
  "npm_probe h w =
     (case subprocess_run h [''npm'', ''--version''] w of
        (Inr npm_check, w1) \<Rightarrow>
          (if returncode npm_check \<noteq> 0 then
             (case decode (stderr npm_check) of
                Inl e \<Rightarrow> (Some (False, ''Cannot check npm availability: '' @ str_exn e), w1)
              | Inr err \<Rightarrow>
                  (Some (False, ''npm is not available. Please install Node.js first.''), w1))
           else
             (case decode (stdout npm_check) of
                Inl e \<Rightarrow> (Some (False, ''Cannot check npm availability: '' @ str_exn e), w1)
              | Inr npm_version \<Rightarrow> (None, w1)))
      | (Inl e, w1) \<Rightarrow>
          (case e of
             FileNotFoundError m \<Rightarrow>
               (if is_windows h then
                  (case auto_install_nodejs h w1 of
                     (nodejs_success, w2) \<Rightarrow>
                       (if nodejs_success then
                          (case subprocess_run h [''npm'', ''--version''] w2 of
                             (Inl retry_error, w3) \<Rightarrow> (Some (False, npm_still_unavailable), w3)
                           | (Inr npm_check, w3) \<Rightarrow>
                               (if returncode npm_check = 0 then
                                  (case decode (stdout npm_check) of
                                     Inl retry_error \<Rightarrow> (Some (False, npm_still_unavailable), w3)
                                   | Inr npm_version \<Rightarrow> (None, w3))
                                else
                                  (Some (False, ''Node.js installed but npm still not working. Please restart the application.''), w3)))
                        else (Some (False, npm_not_found), w2)))
                else (Some (False, npm_not_found), w1))
           | _ \<Rightarrow> (Some (False, ''Cannot check npm availability: '' @ str_exn e), w1)))"

definition install_npm_body ::
    "host \<Rightarrow> descriptor \<Rightarrow> string \<Rightarrow> string \<Rightarrow> world \<Rightarrow> (exn + install_result) \<times> world" where
  \<comment> \<open>the body of the outer try of \<open>_install_npm_server\<close>\<close>
  "install_npm_body h server_config package server_name w =
     (case npm_probe h w of
        (Some r, w1) \<Rightarrow> (Inr r, w1)
      | (None, w1) \<Rightarrow>
          (let install_cmd = [''npm'', ''install'', ''-g'', package]
           in case subprocess_run_text h install_cmd w1 of
                (Inl install_error, w2) \<Rightarrow>
                  (Inr (False, ''Installation error: '' @ str_exn install_error), w2)
              | (Inr result, w2) \<Rightarrow>
                  (if t_returncode result = 0 then
                     (Inr (True, ''Successfully installed '' @ server_name),
                      configure_server_in_vscode h server_config w2)
                   else
                     (Inr (False, ''npm install failed (exit code '' @ str_int (t_returncode result)
                                  @ ''): '' @ t_stderr result), w2))))"

definition install_npm_server ::
    "host \<Rightarrow> descriptor \<Rightarrow> string option \<Rightarrow> world \<Rightarrow> install_result \<times> world" where
  "install_npm_server h server_config target_path w =
     (let package = get_or (d_package server_config) '''';
          server_name = get_or (d_name server_config) package
      in if package = '''' then ((False, ''No package specified''), w)
         else (case install_npm_body h server_config package server_name w of
                 (Inr r, w') \<Rightarrow> (r, w')
               | (Inl e, w') \<Rightarrow>
                   (case e of
                      TimeoutExpired m \<Rightarrow> ((False, ''Installation timed out''), w')
                    | _ \<Rightarrow> ((False, ''Installation error: '' @ str_exn e), w'))))"

subsection \<open>git\<close>

definition install_git_body ::
    "host \<Rightarrow> string \<Rightarrow> string \<Rightarrow> string option \<Rightarrow> world \<Rightarrow> (exn + install_result) \<times> world" where
  \<comment> \<open>\<open>target_path\<close> becomes a \<open>Path\<close> on both arms: the message, the argv of
      \<open>git clone\<close> and the directory made carry its normal form\<close>
  "install_git_body h repository server_name target_path w =
     (case subprocess_run h [''git'', ''--version''] w of
        (Inl e, w1) \<Rightarrow> (Inl e, w1)
      | (Inr git_check, w1) \<Rightarrow>
          (if returncode git_check \<noteq> 0
           then (Inr (False, ''git is not available. Please install Git first.''), w1)
           else
             (let target =
                    (if get_or target_path '''' = ''''
                     then path_of h [home h, ''mcp-servers'',
                                     py_lower (py_replace server_name '' '' ''-'')]
                     else path_of h [get_or target_path ''''])
              in case mkdir h target w1 of
                   (Inl e, w2) \<Rightarrow> (Inl e, w2)
                 | (Inr u, w2) \<Rightarrow>
                     (case subprocess_run_text h [''git'', ''clone'', repository, target] w2 of
                        (Inl e, w3) \<Rightarrow> (Inl e, w3)
                      | (Inr result, w3) \<Rightarrow>
                          (if t_returncode result = 0 then
                             (if path_exists h (length (calls w3)) (path_of h [target, ''package.json''])
                              then
                                (case subprocess_run_text h [''npm'', ''install''] w3 of
                                   (Inl e, w4) \<Rightarrow> (Inl e, w4)
                                 | (Inr npm_install, w4) \<Rightarrow>
                                     (Inr (True, ''Successfully cloned '' @ server_name @ '' to ''
                                                 @ target), w4))
                              else
                                (Inr (True, ''Successfully cloned '' @ server_name @ '' to '' @ target),
                                 w3))
                           else (Inr (False, ''git clone failed: '' @ t_stderr result), w3))))))"

definition install_git_server ::
    "host \<Rightarrow> descriptor \<Rightarrow> string option \<Rightarrow> world \<Rightarrow> install_result \<times> world" where
  "install_git_server h server_config target_path w =
     (let repository = get_or (d_repository server_config) '''';
          server_name = get_or (d_name server_config) ''Git Server''
      in if repository = '''' then ((False, ''No repository URL specified''), w)
         else (case install_git_body h repository server_name target_path w of
                 (Inr r, w') \<Rightarrow> (r, w')
               | (Inl e, w') \<Rightarrow>
                   (case e of
                      TimeoutExpired m \<Rightarrow> ((False, ''Git clone timed out''), w')
                    | _ \<Rightarrow> ((False, ''Git installation error: '' @ str_exn e), w'))))"

subsection \<open>python\<close>

definition pip_install ::
    "host \<Rightarrow> string \<Rightarrow> string \<Rightarrow> string \<Rightarrow> world \<Rightarrow> (exn + install_result) \<times> world" where
  \<comment> \<open>the part of \<open>_install_python_server\<close> after the interpreter is chosen\<close>
  "pip_install h python_cmd package repository w =
     (if package \<noteq> '''' then
        (case subprocess_run_text h [python_cmd, ''-m'', ''pip'', ''install'', package] w of
           (Inl e, w1) \<Rightarrow> (Inl e, w1)
         | (Inr result, w1) \<Rightarrow>
             (if t_returncode result = 0
              then (Inr (True, ''Successfully installed Python package '' @ package), w1)
              else (Inr (False, ''pip install failed: '' @ t_stderr result), w1)))
      else if repository \<noteq> '''' then
        (case subprocess_run_text h
                [python_cmd, ''-m'', ''pip'', ''install'', ''git+'' @ repository] w of
           (Inl e, w1) \<Rightarrow> (Inl e, w1)
         | (Inr result, w1) \<Rightarrow>
             (if t_returncode result = 0
              then (Inr (True, ''Successfully installed Python server from '' @ repository), w1)
              else (Inr (False, ''pip install from git failed: '' @ t_stderr result), w1)))
      else (Inr (False, ''No package or repository specified for Python server''), w))"

definition install_python_body ::
    "host \<Rightarrow> string \<Rightarrow> string \<Rightarrow> world \<Rightarrow> (exn + install_result) \<times> world" where
  "install_python_body h package repository w =
     (case subprocess_run h [''python'', ''--version''] w of
        (Inl e, w1) \<Rightarrow> (Inl e, w1)
      | (Inr python_check, w1) \<Rightarrow>
          (if returncode python_check \<noteq> 0 then
             (case subprocess_run h [''python3'', ''--version''] w1 of
                (Inl e, w2) \<Rightarrow> (Inl e, w2)
              | (Inr python3_check, w2) \<Rightarrow>
                  (if returncode python3_check \<noteq> 0
                   then (Inr (False, ''Python is not available. Please install Python first.''), w2)
                   else pip_install h ''python3'' package repository w2))
           else pip_install h ''python'' package repository w1))"

definition install_python_server ::
    "host \<Rightarrow> descriptor \<Rightarrow> string option \<Rightarrow> world \<Rightarrow> install_result \<times> world" where
  "install_python_server h server_config target_path w =
     (let package = get_or (d_package server_config) '''';
          repository = get_or (d_repository server_config) ''''
      in case install_python_body h package repository w of
           (Inr r, w') \<Rightarrow> (r, w')
         | (Inl e, w') \<Rightarrow>
             (case e of
                TimeoutExpired m \<Rightarrow> ((False, ''Python installation timed out''), w')
              | _ \<Rightarrow> ((False, ''Python installation error: '' @ str_exn e), w')))"

subsection \<open>The Docker probe (src/core/system\_checker.py)\<close>

fun split_on :: "char \<Rightarrow> string \<Rightarrow> string list" where
  \<comment> \<open>\<open>s.split(c)\<close> for a one-character separator\<close>
  "split_on c [] = [[]]"
| "split_on c (x # xs) =
     (if x = c then [] # split_on c xs
      else (case split_on c xs of [] \<Rightarrow> [[x]] | l # ls \<Rightarrow> (x # l) # ls))"

definition first_containing :: "string list \<Rightarrow> string \<Rightarrow> string" where
  \<comment> \<open>\<open>next((line for line in lines if key in line), '')\<close>\<close>
  "first_containing lines key =
     (case List.find (\<lambda>line. contains line key) lines of None \<Rightarrow> '''' | Some line \<Rightarrow> line)"

fun py_join :: "string \<Rightarrow> string list \<Rightarrow> string" where
  \<comment> \<open>\<open>sep.join(parts)\<close>\<close>
  "py_join s [] = []"
| "py_join s [p] = p"
| "py_join s (p # q # ps) = p @ s @ py_join s (q # ps)"

definition docker_check_failed :: "exn \<Rightarrow> probe_result" where
  \<comment> \<open>the three handlers of \<open>check_docker\<close>\<close>
  "docker_check_failed e =
     (case e of
        TimeoutExpired m \<Rightarrow>
          \<lparr>status = False, message = ''Docker check timed out'',
           details = ''Docker command timed out. Docker may be starting or unresponsive.'',
           daemon_running = None, installed = None\<rparr>
      | FileNotFoundError m \<Rightarrow>
          \<lparr>status = False, message = ''Docker not installed'',
           details = ''Docker command not found. Install Docker Desktop or Docker Engine.'',
           daemon_running = None, installed = None\<rparr>
      | _ \<Rightarrow>
          \<lparr>status = False, message = ''Docker check failed'',
           details = ''Error checking Docker: '' @ str_exn e,
           daemon_running = None, installed = None\<rparr>)"

definition check_docker :: "host \<Rightarrow> world \<Rightarrow> probe_result \<times> world" where
  "check_docker h w =
     (case subprocess_run_text h [''docker'', ''--version''] w of
        (Inl e, w1) \<Rightarrow> (docker_check_failed e, w1)
      | (Inr version_result, w1) \<Rightarrow>
          (if t_returncode version_result \<noteq> 0 then
             (\<lparr>status = False, message = ''Docker not installed'',
               details = ''Docker is not installed. Required for Docker-based MCP servers.'',
               daemon_running = None, installed = None\<rparr>, w1)
           else
             (let version = py_strip (t_stdout version_result)
              in case subprocess_run_text h [''docker'', ''info''] w1 of
                   (Inl e, w2) \<Rightarrow> (docker_check_failed e, w2)
                 | (Inr daemon_result, w2) \<Rightarrow>
                     (if t_returncode daemon_result = 0 then
                        (let info_lines = split_on (CHR 0x0A) (t_stdout daemon_result);
                             containers_line = first_containing info_lines ''Containers:'';
                             images_line = first_containing info_lines ''Images:'';
                             details_parts =
                               [''Version: '' @ version]
                               @ (if containers_line \<noteq> '''' then [py_strip containers_line] else [])
                               @ (if images_line \<noteq> '''' then [py_strip images_line] else [])
                         in (\<lparr>status = True, message = ''Docker installed and running'',
                              details = py_join '', '' details_parts,
                              daemon_running = Some True, installed = None\<rparr>, w2))
                      else
                        (\<lparr>status = False, message = ''Docker installed but not running'',
                          details = version @ '' - Docker daemon is not running. Start Docker Desktop or Docker service.'',
                          daemon_running = Some False, installed = Some True\<rparr>, w2)))))"

definition get_docker_status :: "host \<Rightarrow> world \<Rightarrow> probe_result \<times> world" where
  \<comment> \<open>the result of an earlier \<open>check_all\<close> when there is one, a fresh check otherwise
      (which is not stored)\<close>
  "get_docker_status h w =
     (case results_docker w of Some r \<Rightarrow> (r, w) | None \<Rightarrow> check_docker h w)"

subsection \<open>docker: making the engine available\<close>

fun install_docker_loop ::
    "host \<Rightarrow> string list list \<Rightarrow> world \<Rightarrow> install_result option \<times> world" where
  \<comment> \<open>\<open>for cmd in install_commands\<close>: \<open>Some\<close> is the \<open>return\<close> inside the loop\<close>
  "install_docker_loop h [] w = (None, w)"
| "install_docker_loop h (cmd # cmds) w =
     (case subprocess_run_text h cmd w of
        (Inl e, w1) \<Rightarrow> install_docker_loop h cmds w1
      | (Inr result, w1) \<Rightarrow>
          (if t_returncode result = 0
           then (Some (True, ''Docker Desktop installed successfully. Please restart the application to complete setup.''), w1)
           else install_docker_loop h cmds w1))"

definition install_docker :: "host \<Rightarrow> world \<Rightarrow> install_result \<times> world" where
  "install_docker h w =
     (if is_windows h then
        (case install_docker_loop h
                [[''winget'', ''install'', ''Docker.DockerDesktop'', ''--silent'',
                  ''--accept-package-agreements'', ''--accept-source-agreements''],
                 [''winget'', ''install'', ''docker'', ''--silent'',
                  ''--accept-package-agreements'', ''--accept-source-agreements'']] w of
           (Some r, w1) \<Rightarrow> (r, w1)
         | (None, w1) \<Rightarrow>
             ((False, ''Automatic Docker installation failed. Please install Docker Desktop manually from https://docker.com/products/docker-desktop''), w1))
      else
        ((False, ''Automatic Docker installation not supported on this platform. Please install Docker manually.''), w))"

fun start_docker_loop ::
    "host \<Rightarrow> string list list \<Rightarrow> world \<Rightarrow> install_result option \<times> world" where
  "start_docker_loop h [] w = (None, w)"
| "start_docker_loop h (cmd # cmds) w =
     (case subprocess_run_text h cmd w of
        (Inl e, w1) \<Rightarrow> start_docker_loop h cmds w1
      | (Inr result, w1) \<Rightarrow>
          (if t_returncode result = 0 then
             (case get_docker_status h w1 of
                (docker_status, w2) \<Rightarrow>
                  (if status docker_status then (Some (True, ''Docker started successfully''), w2)
                   else (Some (False, ''Docker was started but is not yet ready. Please wait a moment and try again.''), w2)))
           else start_docker_loop h cmds w1))"

definition start_docker :: "host \<Rightarrow> world \<Rightarrow> install_result \<times> world" where
  "start_docker h w =
     (if is_windows h then
        (case start_docker_loop h
                [[''powershell'', ''-Command'', ''Start-Process'',
                  [CHR 0x27] @ ''Docker Desktop'' @ [CHR 0x27]],
                 [''cmd'', ''/c'', ''start'', ''Docker Desktop'']] w of
           (Some r, w1) \<Rightarrow> (r, w1)
         | (None, w1) \<Rightarrow>
             ((False, ''Could not start Docker automatically. Please start Docker Desktop manually.''), w1))
      else
        (case subprocess_run_text h [''sudo'', ''systemctl'', ''start'', ''docker''] w of
           (Inl e, w1) \<Rightarrow> ((False, ''Failed to start Docker on Linux: '' @ str_exn e), w1)
         | (Inr result, w1) \<Rightarrow>
             (if t_returncode result = 0 then ((True, ''Docker service started successfully''), w1)
              else ((False, ''Failed to start Docker service: '' @ t_stderr result), w1))))"

definition ensure_docker_available :: "host \<Rightarrow> world \<Rightarrow> install_result \<times> world" where
  "ensure_docker_available h w =
     (case get_docker_status h w of
        (docker_status, w1) \<Rightarrow>
          (if \<not> get_or (installed docker_status) False
              \<and> startswith (message docker_status) ''Docker not''
           then install_docker h w1
           else if get_or (installed docker_status) False
                   \<and> \<not> get_or (daemon_running docker_status) False
           then start_docker h w1
           else if status docker_status then ((True, ''Docker is already available''), w1)
           else ((False, ''Unknown Docker state: '' @ message docker_status), w1)))"

subsection \<open>docker: running a container\<close>

definition expand_workspace :: "host \<Rightarrow> string \<Rightarrow> world \<Rightarrow> (exn + string) \<times> world" where
  "expand_workspace h volume w =
     (if contains volume ''${MCP_WORKSPACE_PATH'' then
        (let workspace_path =
               get_or (environ h ''MCP_WORKSPACE_PATH'') (path_join h (home h) ''mcp-workspace'')
         in case mkdir h workspace_path w of
              (Inl e, w1) \<Rightarrow> (Inl e, w1)
            | (Inr u, w1) \<Rightarrow>
                (Inr (py_replace
                        (py_replace volume ''${MCP_WORKSPACE_PATH:-./workspace}'' workspace_path)
                        ''${MCP_WORKSPACE_PATH}'' workspace_path), w1))
      else (Inr volume, w))"

definition expand_data :: "host \<Rightarrow> string \<Rightarrow> world \<Rightarrow> (exn + string) \<times> world" where
  "expand_data h volume w =
     (if contains volume ''${MCP_DATA_PATH'' then
        (let data_path = get_or (environ h ''MCP_DATA_PATH'') (path_join h (home h) ''mcp-data'')
         in case mkdir h data_path w of
              (Inl e, w1) \<Rightarrow> (Inl e, w1)
            | (Inr u, w1) \<Rightarrow>
                (Inr (py_replace (py_replace volume ''${MCP_DATA_PATH:-./data}'' data_path)
                        ''${MCP_DATA_PATH}'' data_path), w1))
      else (Inr volume, w))"

definition expand_volume_path :: "host \<Rightarrow> string \<Rightarrow> world \<Rightarrow> (exn + string) \<times> world" where
  "expand_volume_path h volume w =
     (case expand_workspace h volume w of
        (Inl e, w1) \<Rightarrow> (Inl e, w1)
      | (Inr volume1, w1) \<Rightarrow> expand_data h volume1 w1)"

fun volume_flags :: "host \<Rightarrow> string list \<Rightarrow> world \<Rightarrow> (exn + string list) \<times> world" where
  \<comment> \<open>\<open>for volume in volumes: run_cmd.extend(["-v", self._expand_volume_path(volume)])\<close>\<close>
  "volume_flags h [] w = (Inr [], w)"
| "volume_flags h (volume # volumes) w =
     (case expand_volume_path h volume w of
        (Inl e, w1) \<Rightarrow> (Inl e, w1)
      | (Inr expanded_volume, w1) \<Rightarrow>
          (case volume_flags h volumes w1 of
             (Inl e, w2) \<Rightarrow> (Inl e, w2)
           | (Inr flags, w2) \<Rightarrow> (Inr ([''-v'', expanded_volume] @ flags), w2)))"

definition cleanup_existing_container :: "host \<Rightarrow> string \<Rightarrow> world \<Rightarrow> world" where
  \<comment> \<open>stop, then remove; a bare \<open>except\<close> swallows whatever either raises\<close>
  "cleanup_existing_container h container_name w =
     (case subprocess_run h [''docker'', ''stop'', container_name] w of
        (Inl e, w1) \<Rightarrow> w1
      | (Inr stopped, w1) \<Rightarrow> snd (subprocess_run h [''docker'', ''rm'', container_name] w1))"

definition container_name_of :: "string \<Rightarrow> string" where
  "container_name_of server_name = ''mcp-'' @ py_replace (py_lower server_name) '' '' ''-''"

definition daemon_container ::
    "host \<Rightarrow> configuration \<Rightarrow> string \<Rightarrow> string \<Rightarrow> world
       \<Rightarrow> (exn + (install_result + server_dict)) \<times> world" where
  \<comment> \<open>the daemon branch of \<open>_run_docker_container\<close>: it raises, returns a failure
      (\<open>Inr (Inl r)\<close>), or leaves the IDE entry for the started container\<close>
  "daemon_container h config img server_name w =
     (let container_name = container_name_of server_name;
          ports = get_or (c_ports config) [];
          volumes = get_or (c_volumes config) [];
          environment = get_or (c_environment config) []
      in case volume_flags h volumes w of
           (Inl e, w1) \<Rightarrow> (Inl e, w1)
         | (Inr vflags, w1) \<Rightarrow>
             (let run_cmd =
                    [''docker'', ''run'', ''-d'', ''--name'', container_name]
                    @ concat (map (\<lambda>port. [''-p'', port]) ports)
                    @ vflags
                    @ concat (map (\<lambda>(key, val). [''-e'', key @ ''='' @ val]) environment)
                    @ [''--restart'', ''unless-stopped'']
                    @ [img];
                  w2 = cleanup_existing_container h container_name w1
              in case subprocess_run_text h run_cmd w2 of
                   (Inl e, w3) \<Rightarrow> (Inl e, w3)
                 | (Inr result, w3) \<Rightarrow>
                     (if t_returncode result \<noteq> 0
                      then (Inr (Inl (False, ''Docker run failed: '' @ t_stderr result)), w3)
                      else
                        (case get_or (c_command config) (CmdList [''npx'', ''@playwright/mcp'']) of
                           CmdStr s \<Rightarrow>
                             (Inl (Exception (''can only concatenate list (not '' @ [CHR 0x22] @ ''str''
                                             @ [CHR 0x22] @ '') to list'')), w3)
                         | CmdList command \<Rightarrow>
                             (Inr (Inr \<lparr>sd_name = Some server_name,
                                        sd_command = Some (CmdStr ''docker''),
                                        sd_args = Some ([''exec'', ''-i'', container_name] @ command),
                                        sd_env = Some environment\<rparr>), w3)))))"

definition run_docker_container_body ::
    "host \<Rightarrow> descriptor \<Rightarrow> string \<Rightarrow> string \<Rightarrow> world \<Rightarrow> (exn + install_result) \<times> world" where
  "run_docker_container_body h server_config img server_name w =
     (let config = get_or (d_configuration server_config) no_configuration;
          run_mode = get_or (c_run_mode config) ''daemon''
      in case (if run_mode = ''interactive''
               then (Inr (Inr \<lparr>sd_name = Some server_name,
                               sd_command = Some (CmdStr ''docker''),
                               sd_args = Some [''run'', ''-i'', ''--rm'', ''--init'',
                                               ''--pull=always'', img],
                               sd_env = Some (get_or (c_environment config) [])\<rparr>), w)
               else daemon_container h config img server_name w) of
           (Inl e, w1) \<Rightarrow> (Inl e, w1)
         | (Inr (Inl r), w1) \<Rightarrow> (Inr r, w1)
         | (Inr (Inr vscode_config), w1) \<Rightarrow>
             (case add_server_to_extension h ''cline'' vscode_config w1 of
                (Inl e, w2) \<Rightarrow> (Inl e, w2)
              | (Inr added, w2) \<Rightarrow>
                  (case add_server_to_extension h ''roo'' vscode_config w2 of
                     (Inl e, w3) \<Rightarrow> (Inl e, w3)
                   | (Inr added', w3) \<Rightarrow>
                       (Inr (True, ''Successfully configured '' @ server_name
                                   @ '' for MCP via Docker''), w3))))"

definition run_docker_container ::
    "host \<Rightarrow> descriptor \<Rightarrow> string \<Rightarrow> world \<Rightarrow> install_result \<times> world" where
  "run_docker_container h server_config img w =
     (let server_name = get_or (d_name server_config) ''Server''
      in case run_docker_container_body h server_config img server_name w of
           (Inr r, w') \<Rightarrow> (r, w')
         | (Inl e, w') \<Rightarrow>
             (case e of
                TimeoutExpired m \<Rightarrow> ((False, ''Docker container start timed out''), w')
              | _ \<Rightarrow> ((False, ''Docker container error: '' @ str_exn e), w')))"

subsection \<open>docker: building a local image\<close>

definition dockerfile_map :: "(string \<times> string) list" where
  "dockerfile_map =
     [(''mcp-filesystem'', ''Dockerfile.filesystem''),
      (''mcp-browser'', ''Dockerfile.playwright''),
      (''mcp-git'', ''Dockerfile.git''),
      (''mcp-memory'', ''Dockerfile.memory'')]"

definition build_local_docker_image_body ::
    "host \<Rightarrow> descriptor \<Rightarrow> string \<Rightarrow> string \<Rightarrow> world \<Rightarrow> (exn + install_result) \<times> world" where
  "build_local_docker_image_body h server_config img server_name w =
     (let image_name = split_first (CHR '':'') img
      in case dict_get dockerfile_map image_name of
           None \<Rightarrow> (Inr (False, ''No Dockerfile found for image: '' @ image_name), w)
         | Some dockerfile \<Rightarrow>
             (let dockerfile_path = path_join h ''docker'' dockerfile
              in if \<not> path_exists h (length (calls w)) dockerfile_path
                 then (Inr (False, ''Dockerfile not found: '' @ dockerfile_path), w)
                 else
                   (case subprocess_run_text h
                           [''docker'', ''build'', ''-f'', dockerfile_path, ''-t'', img, ''docker''] w of
                      (Inl e, w1) \<Rightarrow> (Inl e, w1)
                    | (Inr result, w1) \<Rightarrow>
                        (if t_returncode result = 0 then
                           (case add_server_to_extension h ''cline'' (descriptor_dict server_config) w1 of
                              (Inl e, w2) \<Rightarrow> (Inl e, w2)
                            | (Inr added, w2) \<Rightarrow>
                                (case add_server_to_extension h ''roo''
                                        (descriptor_dict server_config) w2 of
                                   (Inl e, w3) \<Rightarrow> (Inl e, w3)
                                 | (Inr added', w3) \<Rightarrow>
                                     (Inr (True, ''Successfully built and configured ''
                                                 @ server_name), w3)))
                         else (Inr (False, ''Docker build failed: '' @ t_stderr result), w1)))))"

definition build_local_docker_image ::
    "host \<Rightarrow> descriptor \<Rightarrow> string \<Rightarrow> world \<Rightarrow> install_result \<times> world" where
  "build_local_docker_image h server_config img w =
     (let server_name = get_or (d_name server_config) ''Server''
      in case build_local_docker_image_body h server_config img server_name w of
           (Inr r, w') \<Rightarrow> (r, w')
         | (Inl e, w') \<Rightarrow>
             (case e of
                TimeoutExpired m \<Rightarrow> ((False, ''Docker build timed out''), w')
              | _ \<Rightarrow> ((False, ''Docker build error: '' @ str_exn e), w')))"

definition docker_image_exists :: "host \<Rightarrow> string \<Rightarrow> world \<Rightarrow> bool \<times> world" where
  "docker_image_exists h img w =
     (case subprocess_run h [''docker'', ''image'', ''inspect'', img] w of
        (Inl e, w1) \<Rightarrow> (False, w1)
      | (Inr result, w1) \<Rightarrow> (returncode result = 0, w1))"

definition build_and_run_docker_image ::
    "host \<Rightarrow> descriptor \<Rightarrow> string \<Rightarrow> world \<Rightarrow> install_result \<times> world" where
  "build_and_run_docker_image h server_config img w =
     (case build_local_docker_image h server_config img w of
        (build_result, w1) \<Rightarrow>
          (if \<not> fst build_result then (build_result, w1)
           else run_docker_container h server_config img w1))"

subsection \<open>docker: the primary installation path\<close>

definition is_local_build :: "string \<Rightarrow> bool" where
  \<comment> \<open>\<open>image.startswith("mcp-") and ":" in image\<close>\<close>
  "is_local_build img = (startswith img ''mcp-'' \<and> contains img '':'')"

definition docker_ready :: "host \<Rightarrow> world \<Rightarrow> install_result option \<times> world" where
  \<comment> \<open>the status check that opens \<open>_install_docker_server_impl\<close>: \<open>Some\<close> is a
      \<open>return\<close> out of the function\<close>
  "docker_ready h w =
     (case get_docker_status h w of
        (docker_status, w1) \<Rightarrow>
          (if \<not> status docker_status then
             (case ensure_docker_available h w1 of
                (install_result, w2) \<Rightarrow>
                  (if \<not> fst install_result
                   then (Some (False, ''Docker setup failed: '' @ snd install_result), w2)
                   else
                     (case get_docker_status h w2 of
                        (docker_status', w3) \<Rightarrow>
                          (if \<not> status docker_status'
                           then (Some (False, ''Docker setup completed but Docker still not available''), w3)
                           else (None, w3)))))
           else (None, w1)))"

text \<open>
  The \<open>if\<close>/\<open>else\<close> on the image name either returns out of the function or falls
  through to the statements after it.  Those statements read the local variables
  \<open>pull_cmd\<close> and \<open>result\<close>; a Python local that no executed statement has assigned is
  unbound, and reading it raises UnboundLocalError.  The locals are therefore options.
\<close>

datatype image_step =
  Returned install_result
| Falls_through (local_pull_cmd: "string list option") (local_result: "completed_text option")

definition docker_image_step ::
    "host \<Rightarrow> descriptor \<Rightarrow> string \<Rightarrow> world \<Rightarrow> (exn + image_step) \<times> world" where
  "docker_image_step h server_config img w =
     (if is_local_build img then
        (case docker_image_exists h img w of
           (exists, w1) \<Rightarrow>
             (if exists
              then (case run_docker_container h server_config img w1 of
                      (r, w2) \<Rightarrow> (Inr (Returned r), w2))
              else (case build_and_run_docker_image h server_config img w1 of
                      (r, w2) \<Rightarrow> (Inr (Returned r), w2))))
      else
        (let pull_cmd = [''docker'', ''pull'', img]
         in case subprocess_run_text h pull_cmd w of
              (Inl e, w1) \<Rightarrow> (Inl e, w1)
            | (Inr result, w1) \<Rightarrow> (Inr (Falls_through (Some pull_cmd) (Some result)), w1)))"

definition unbound_local :: "string \<Rightarrow> exn" where
  "unbound_local v =
     Exception (''cannot access local variable '' @ quoted v
                @ '' where it is not associated with a value'')"

definition after_image_step ::
    "host \<Rightarrow> descriptor \<Rightarrow> string \<Rightarrow> image_step \<Rightarrow> world \<Rightarrow> (exn + install_result) \<times> world" where
  \<comment> \<open>the statements after the \<open>if\<close>/\<open>else\<close>: the log line reads \<open>pull_cmd\<close> and
      \<open>result\<close>\<close>
  "after_image_step h server_config img step w =
     (case step of
        Returned r \<Rightarrow> (Inr r, w)
      | Falls_through cmd res \<Rightarrow>
          (case cmd of
             None \<Rightarrow> (Inl (unbound_local ''pull_cmd''), w)
           | Some pull_cmd \<Rightarrow>
               (case res of
                  None \<Rightarrow> (Inl (unbound_local ''result''), w)
                | Some result \<Rightarrow>
                    (if t_returncode result = 0
                     then (case run_docker_container h server_config img w of
                             (r, w1) \<Rightarrow> (Inr r, w1))
                     else (Inr (False, ''docker pull failed: '' @ t_stderr result), w)))))"

definition install_docker_server_impl_body ::
    "host \<Rightarrow> descriptor \<Rightarrow> string \<Rightarrow> world \<Rightarrow> (exn + install_result) \<times> world" where
  "install_docker_server_impl_body h server_config img w =
     (case docker_ready h w of
        (Some r, w1) \<Rightarrow> (Inr r, w1)
      | (None, w1) \<Rightarrow>
          (case docker_image_step h server_config img w1 of
             (Inl e, w2) \<Rightarrow> (Inl e, w2)
           | (Inr step, w2) \<Rightarrow> after_image_step h server_config img step w2))"

definition install_docker_server_impl ::
    "host \<Rightarrow> descriptor \<Rightarrow> world \<Rightarrow> (exn + install_result) \<times> world" where
  "install_docker_server_impl h server_config w =
     (let img = get_or (d_image server_config) ''''
      in case install_docker_server_impl_body h server_config img w of
           (Inr r, w') \<Rightarrow> (Inr r, w')
         | (Inl e, w') \<Rightarrow>
             (case e of
                TimeoutExpired m \<Rightarrow> (Inr (False, ''Docker pull timed out''), w')
              | _ \<Rightarrow> (Inr (False, ''Docker installation error: '' @ str_exn e), w')))"

definition reaches_pull_cmd_unbound :: "host \<Rightarrow> descriptor \<Rightarrow> world \<Rightarrow> bool" where
  \<comment> \<open>the run of \<open>_install_docker_server_impl\<close> arrives at the log line after the
      \<open>if\<close>/\<open>else\<close> with \<open>pull_cmd\<close> unassigned\<close>
  "reaches_pull_cmd_unbound h server_config w =
     (case docker_ready h w of
        (Some r, w1) \<Rightarrow> False
      | (None, w1) \<Rightarrow>
          (case docker_image_step h server_config (get_or (d_image server_config) []) w1 of
             (Inl e, w2) \<Rightarrow> False
           | (Inr step, w2) \<Rightarrow>
               (case step of
                  Returned r \<Rightarrow> False
                | Falls_through cmd res \<Rightarrow> cmd = None)))"

subsection \<open>docker: the fallback\<close>

definition install_fallback_server ::
    "host \<Rightarrow> descriptor \<Rightarrow> descriptor \<Rightarrow> world \<Rightarrow> install_result \<times> world" where
  \<comment> \<open>the three backends return a result on every path, so the \<open>except\<close> around the
      dispatch ("Fallback installation failed") has nothing to catch\<close>
  "install_fallback_server h original_config fallback_config w =
     (let fallback_type = get_or (d_type fallback_config) ''unknown'';
          temp_config = dict_update original_config fallback_config
      in if fallback_type = ''npm'' then install_npm_server h temp_config None w
         else if fallback_type = ''python'' then install_python_server h temp_config None w
         else if fallback_type = ''git'' then install_git_server h temp_config None w
         else ((False, ''Unsupported fallback type: '' @ fallback_type), w))"

definition install_docker_server ::
    "host \<Rightarrow> (descriptor \<Rightarrow> world \<Rightarrow> (exn + install_result) \<times> world)
       \<Rightarrow> descriptor \<Rightarrow> world \<Rightarrow> install_result \<times> world" where
  \<comment> \<open>\<open>impl\<close> is the method \<open>self._install_docker_server_impl\<close> that the \<open>try\<close> calls\<close>
  "install_docker_server h impl server_config w =
     (let img = get_or (d_image server_config) ''''
      in if img = '''' then ((False, ''No Docker image specified''), w)
         else
           (let fallback_config = d_fallback server_config
            in case impl server_config w of
                 (Inr r, w1) \<Rightarrow> (r, w1)
               | (Inl docker_error, w1) \<Rightarrow>
                   (case fallback_config of
                      None \<Rightarrow> ((False, ''Docker installation failed: '' @ str_exn docker_error), w1)
                    | Some fb \<Rightarrow>
                        (if is_empty_dict fb
                         then ((False, ''Docker installation failed: '' @ str_exn docker_error), w1)
                         else install_fallback_server h server_config fb w1))))"

section \<open>The dispatcher\<close>

type_synonym backend = "descriptor \<Rightarrow> string option \<Rightarrow> world \<Rightarrow> (exn + install_result) \<times> world"

definition install_server_with ::
    "backend \<Rightarrow> backend \<Rightarrow> backend
       \<Rightarrow> (descriptor \<Rightarrow> world \<Rightarrow> (exn + install_result) \<times> world)
       \<Rightarrow> descriptor \<Rightarrow> string option \<Rightarrow> world \<Rightarrow> (exn + install_result) \<times> world" where
  \<comment> \<open>\<open>install_server\<close> over the four methods it dispatches to\<close>
  "install_server_with npm git python docker server_config target_path w =
     (let server_name = get_or (d_name server_config) ''Unknown Server'';
          server_type = get_or (d_type server_config) ''unknown''
      in case (if server_type = ''npm'' then npm server_config target_path w
               else if server_type = ''git'' then git server_config target_path w
               else if server_type = ''python'' then python server_config target_path w
               else if server_type = ''docker'' then docker server_config w
               else (Inr (False, ''Unsupported server type: '' @ server_type), w)) of
           (Inr r, w') \<Rightarrow> (Inr r, w')
         | (Inl e, w') \<Rightarrow> (Inr (False, ''Installation failed: '' @ str_exn e), w'))"

definition install_server_using ::
    "(descriptor \<Rightarrow> world \<Rightarrow> (exn + install_result) \<times> world)
       \<Rightarrow> host \<Rightarrow> descriptor \<Rightarrow> string option \<Rightarrow> world \<Rightarrow> (exn + install_result) \<times> world" where
  \<comment> \<open>the dispatcher over the backends of this module, for a given primary docker path\<close>
  "install_server_using impl h =
     install_server_with
       (\<lambda>c t w. apfst Inr (install_npm_server h c t w))
       (\<lambda>c t w. apfst Inr (install_git_server h c t w))
       (\<lambda>c t w. apfst Inr (install_python_server h c t w))
       (\<lambda>c w. apfst Inr (install_docker_server h impl c w))"

definition install_server ::
    "host \<Rightarrow> descriptor \<Rightarrow> string option \<Rightarrow> world \<Rightarrow> (exn + install_result) \<times> world" where
  "install_server h = install_server_using (install_docker_server_impl h) h"

section \<open>Discovery (src/core/server\_manager.py)\<close>

text \<open>
  A discovered server is the dictionary the source builds from a registry's answer, kept as
  a JSON object.  The local catalog \<open>self.servers\<close> is the document that
  \<open>_load_server_definitions\<close> returns: what \<open>json.load\<close> read from
  config/servers.json, or the default dictionary.
\<close>

definition truthy :: "json \<Rightarrow> bool" where
  \<comment> \<open>the truth value of a decoded JSON value in a condition\<close>
  "truthy v =
     (case v of
        JNull \<Rightarrow> False
      | JBool b \<Rightarrow> b
      | JNum n \<Rightarrow> n \<noteq> 0
      | JStr s \<Rightarrow> s \<noteq> ''''
      | JArr xs \<Rightarrow> xs \<noteq> []
      | JObj kvs \<Rightarrow> kvs \<noteq> [])"

definition subscript :: "json \<Rightarrow> string \<Rightarrow> exn + json" where
  \<comment> \<open>\<open>v[key]\<close> with a string key: KeyError on a dictionary without the key, TypeError on
      anything that is not a dictionary\<close>
  "subscript v key =
     (case v of
        JObj kvs \<Rightarrow>
          (case dict_get kvs key of None \<Rightarrow> Inl (Exception (quoted key)) | Some x \<Rightarrow> Inr x)
      | JArr xs \<Rightarrow> Inl (Exception ''list indices must be integers or slices, not str'')
      | JStr s \<Rightarrow> Inl (Exception (''string indices must be integers, not '' @ quoted ''str''))
      | _ \<Rightarrow> Inl (Exception (quoted (type_name v) @ '' object is not subscriptable'')))"

definition json_get :: "json \<Rightarrow> string \<Rightarrow> json \<Rightarrow> exn + json" where
  \<comment> \<open>\<open>v.get(key, default)\<close>: AttributeError on anything that is not a dictionary\<close>
  "json_get v key dflt =
     (case v of
        JObj kvs \<Rightarrow> Inr (get_or (dict_get kvs key) dflt)
      | _ \<Rightarrow> Inl (Exception (quoted (type_name v) @ '' object has no attribute ''
                              @ quoted ''get'')))"

definition iterate :: "json \<Rightarrow> exn + json list" where
  \<comment> \<open>the values a \<open>for\<close> loop draws from a decoded JSON value: the elements of a list, the
      keys of a dictionary, the characters of a string; TypeError on the rest\<close>
  "iterate v =
     (case v of
        JArr xs \<Rightarrow> Inr xs
      | JObj kvs \<Rightarrow> Inr (map (\<lambda>kv. JStr (fst kv)) kvs)
      | JStr s \<Rightarrow> Inr (map (\<lambda>c. JStr [c]) s)
      | _ \<Rightarrow> Inl (Exception (quoted (type_name v) @ '' object is not iterable'')))"

fun collect :: "(json \<Rightarrow> exn + json) \<Rightarrow> json list \<Rightarrow> json list" where
  \<comment> \<open>\<open>for x in xs: servers.append(f(x))\<close> inside a try whose handler only logs: an
      exception ends the loop and the servers appended so far stay in the list\<close>
  "collect f [] = []"
| "collect f (x # xs) = (case f x of Inl e \<Rightarrow> [] | Inr s \<Rightarrow> s # collect f xs)"

definition github_server :: "json \<Rightarrow> exn + json" where
  "github_server repo =
     (case subscript repo ''name'' of
        Inl e \<Rightarrow> Inl e
      | Inr name \<Rightarrow>
     (case subscript repo ''description'' of
        Inl e \<Rightarrow> Inl e
      | Inr description \<Rightarrow>
     (case subscript repo ''clone_url'' of
        Inl e \<Rightarrow> Inl e
      | Inr clone_url \<Rightarrow>
     (case subscript repo ''stargazers_count'' of
        Inl e \<Rightarrow> Inl e
      | Inr stars \<Rightarrow>
     (case subscript repo ''language'' of
        Inl e \<Rightarrow> Inl e
      | Inr language \<Rightarrow>
          Inr (JObj [(''name'', name),
                     (''description'', if truthy description then description
                                       else JStr ''No description''),
                     (''type'', JStr ''git''),
                     (''repository'', clone_url),
                     (''category'', JStr ''community''),
                     (''stars'', stars),
                     (''language'', language),
                     (''source'', JStr ''github'')]))))))"

definition discover_github_servers :: "host \<Rightarrow> json list" where
  \<comment> \<open>the whole body is one try whose handler logs a warning; \<open>servers\<close> is returned after it\<close>
  "discover_github_servers h =
     (case http_get h ''https://api.github.com/search/repositories'' of
        Inl e \<Rightarrow> []
      | Inr response \<Rightarrow>
          (if status_code response = 200 then
             (case body_json response of
                Inl e \<Rightarrow> []
              | Inr data \<Rightarrow>
                  (case json_get data ''items'' (JArr []) of
                     Inl e \<Rightarrow> []
                   | Inr items \<Rightarrow>
                       (case iterate items of
                          Inl e \<Rightarrow> []
                        | Inr repos \<Rightarrow> collect github_server repos)))
           else []))"

definition npm_server :: "json \<Rightarrow> exn + json" where
  "npm_server package =
     (case json_get package ''package'' (JObj []) of
        Inl e \<Rightarrow> Inl e
      | Inr pkg \<Rightarrow>
     (case json_get pkg ''name'' (JStr ''Unknown'') of
        Inl e \<Rightarrow> Inl e
      | Inr name \<Rightarrow>
     (case json_get pkg ''description'' (JStr ''No description'') of
        Inl e \<Rightarrow> Inl e
      | Inr description \<Rightarrow>
     (case json_get pkg ''name'' JNull of
        Inl e \<Rightarrow> Inl e
      | Inr package_name \<Rightarrow>
     (case json_get pkg ''version'' JNull of
        Inl e \<Rightarrow> Inl e
      | Inr version \<Rightarrow>
          Inr (JObj [(''name'', name),
                     (''description'', description),
                     (''type'', JStr ''npm''),
                     (''package'', package_name),
                     (''version'', version),
                     (''category'', JStr ''npm''),
                     (''source'', JStr ''npm'')]))))))"

definition discover_npm_servers :: "host \<Rightarrow> json list" where
  "discover_npm_servers h =
     (case http_get h ''https://registry.npmjs.org/-/v1/search'' of
        Inl e \<Rightarrow> []
      | Inr response \<Rightarrow>
          (if status_code response = 200 then
             (case body_json response of
                Inl e \<Rightarrow> []
              | Inr data \<Rightarrow>
                  (case json_get data ''objects'' (JArr []) of
                     Inl e \<Rightarrow> []
                   | Inr objects \<Rightarrow>
                       (case iterate objects of
                          Inl e \<Rightarrow> []
                        | Inr packages \<Rightarrow> collect npm_server packages)))
           else []))"

definition is_alpha :: "char \<Rightarrow> bool" where
  "is_alpha c = (let n = (of_char c :: nat) in (65 \<le> n \<and> n \<le> 90) \<or> (97 \<le> n \<and> n \<le> 122))"

definition is_word :: "char \<Rightarrow> bool" where
  \<comment> \<open>\<open>\w\<close> on ASCII text\<close>
  "is_word c = (is_alpha c \<or> is_digit c \<or> c = CHR ''_'')"

definition server_prefix :: string where
  "server_prefix = ''@modelcontextprotocol/server-''"

function findall_servers :: "string \<Rightarrow> string list" where
  \<comment> \<open>\<open>re.findall(r'@modelcontextprotocol/server-(\w+)', content)\<close>: the groups of the
      non-overlapping matches, scanning from the left\<close>
  "findall_servers [] = []"
| "findall_servers (c # cs) =
     (if startswith (c # cs) server_prefix
         \<and> takeWhile is_word (drop (length server_prefix) (c # cs)) \<noteq> []
      then takeWhile is_word (drop (length server_prefix) (c # cs))
           # findall_servers (dropWhile is_word (drop (length server_prefix) (c # cs)))
      else findall_servers cs)"
  by pat_completeness auto
termination
proof (relation "measure length")
  show "wf (measure length)" by simp
next
  fix c :: char and cs :: string
  have "length (dropWhile is_word (drop (length server_prefix) (c # cs)))
          \<le> length (drop (length server_prefix) (c # cs))"
    by (rule length_dropWhile_le)
  also have "\<dots> < length (c # cs)"
    by (simp add: server_prefix_def)
  finally show "(dropWhile is_word (drop (length server_prefix) (c # cs)), c # cs) \<in> measure length"
    by simp
next
  fix c :: char and cs :: string
  show "(cs, c # cs) \<in> measure length" by simp
qed

fun title_from :: "bool \<Rightarrow> string \<Rightarrow> string" where
  \<comment> \<open>\<open>s.title()\<close> on ASCII text: a letter after a letter is lowered, any other letter is
      raised; the flag says whether the previous character was a letter\<close>
  "title_from prev [] = []"
| "title_from prev (c # cs) =
     (if is_alpha c then (if prev then lower_char c else upper_char c) # title_from True cs
      else c # title_from False cs)"

definition official_server :: "string \<Rightarrow> json" where
  "official_server package_name =
     JObj [(''name'', JStr (title_from False package_name @ '' MCP Server'')),
           (''description'', JStr (''Official '' @ package_name @ '' MCP server'')),
           (''type'', JStr ''npm''),
           (''package'', JStr (server_prefix @ package_name)),
           (''category'', JStr ''official''),
           (''source'', JStr ''official'')]"

definition discover_official_servers :: "host \<Rightarrow> json list" where
  "discover_official_servers h =
     (case http_get h
             ''https://raw.githubusercontent.com/modelcontextprotocol/servers/main/README.md'' of
        Inl e \<Rightarrow> []
      | Inr response \<Rightarrow>
          (if status_code response = 200
           then map official_server (set_order h (findall_servers (body_text response)))
           else []))"

definition local_servers :: "json \<Rightarrow> exn + json list" where
  \<comment> \<open>\<open>list(self.servers.get("servers", {}).values())\<close>: AttributeError when the catalog,
      or its entry "servers", is not a dictionary\<close>
  "local_servers catalog =
     (case json_get catalog ''servers'' (JObj []) of
        Inl e \<Rightarrow> Inl e
      | Inr servers \<Rightarrow>
          (case servers of
             JObj kvs \<Rightarrow> Inr (map snd kvs)
           | _ \<Rightarrow> Inl (Exception (quoted (type_name servers) @ '' object has no attribute ''
                                   @ quoted ''values''))))"

definition discover_servers_with ::
    "(exn + json list) \<Rightarrow> (exn + json list) \<Rightarrow> (exn + json list) \<Rightarrow> json
       \<Rightarrow> exn + (string \<times> json list) list" where
  \<comment> \<open>\<open>discover_servers\<close> over the outcomes of the three methods it calls, each in its own
      try whose handler only logs; the dictionary literal that reads the catalog is outside
      every try\<close>
  "discover_servers_with github npm official catalog =
     (case local_servers catalog of
        Inl e \<Rightarrow> Inl e
      | Inr local \<Rightarrow>
          (let discovered = [(''local'', local),
                             (''github'', []),
                             (''npm'', []),
                             (''official'', [])];
               discovered1 = (case github of
                                Inl e \<Rightarrow> discovered
                              | Inr github_servers \<Rightarrow>
                                  dict_set ''github'' github_servers discovered);
               discovered2 = (case npm of
                                Inl e \<Rightarrow> discovered1
                              | Inr npm_servers \<Rightarrow> dict_set ''npm'' npm_servers discovered1);
               discovered3 = (case official of
                                Inl e \<Rightarrow> discovered2
                              | Inr official_servers \<Rightarrow>
                                  dict_set ''official'' official_servers discovered2)
           in Inr discovered3))"

definition discover_servers :: "host \<Rightarrow> json \<Rightarrow> exn + (string \<times> json list) list" where
  \<comment> \<open>the three methods of this module catch every exception themselves\<close>
  "discover_servers h catalog =
     discover_servers_with (Inr (discover_github_servers h)) (Inr (discover_npm_servers h))
       (Inr (discover_official_servers h)) catalog"

section \<open>The Node.js probe (src/core/system\_checker.py)\<close>

definition plain_result :: "bool \<Rightarrow> string \<Rightarrow> string \<Rightarrow> probe_result" where
  \<comment> \<open>a result dictionary with the three keys "status", "message" and "details"\<close>
  "plain_result s m d =
     \<lparr>status = s, message = m, details = d, daemon_running = None, installed = None\<rparr>"

fun winget_loop :: "host \<Rightarrow> string list list \<Rightarrow> world \<Rightarrow> probe_result option \<times> world" where
  \<comment> \<open>\<open>for cmd in winget_commands\<close> of \<open>_install_nodejs\<close>: every exception inside an
      iteration moves on to the next command\<close>
  "winget_loop h [] w = (None, w)"
| "winget_loop h (cmd # cmds) w =
     (case subprocess_run_text h cmd w of
        (Inl e, w1) \<Rightarrow> winget_loop h cmds w1
      | (Inr result, w1) \<Rightarrow>
          (if t_returncode result = 0 then
             (case subprocess_run_text h [''node'', ''--version''] w1 of
                (Inl e, w2) \<Rightarrow> winget_loop h cmds w2
              | (Inr test_result, w2) \<Rightarrow>
                  (if t_returncode test_result = 0
                   then (Some (plain_result True
                                 (''Node.js installed successfully: ''
                                  @ py_strip (t_stdout test_result))
                                 ''Installed via Windows Package Manager (winget)''), w2)
                   else winget_loop h cmds w2))
           else winget_loop h cmds w1))"

definition nodejs_manual :: probe_result where
  "nodejs_manual =
     plain_result False ''Node.js auto-installation failed''
       ''Please install manually: 1) Go to https://nodejs.org 2) Download LTS version 3) Run installer 4) Restart this application''"

definition install_nodejs :: "host \<Rightarrow> world \<Rightarrow> probe_result \<times> world" where
  \<comment> \<open>\<open>SystemChecker._install_nodejs\<close>\<close>
  "install_nodejs h w =
     (if is_windows h then
        (case subprocess_run_text h [''winget'', ''--version''] w of
           (Inl e, w1) \<Rightarrow>
             (plain_result False (''Node.js installation failed: '' @ str_exn e)
                ''Please install manually from https://nodejs.org'', w1)
         | (Inr winget_check, w1) \<Rightarrow>
             (if t_returncode winget_check \<noteq> 0 then
                (plain_result False ''Cannot auto-install Node.js (winget not available)''
                   ''Please install manually from https://nodejs.org (version 18 or higher)'', w1)
              else
                (case winget_loop h
                        [[''winget'', ''install'', ''OpenJS.NodeJS.LTS'', ''--silent'',
                          ''--accept-package-agreements'', ''--accept-source-agreements''],
                         [''winget'', ''install'', ''OpenJS.NodeJS'', ''--silent'',
                          ''--accept-package-agreements'', ''--accept-source-agreements''],
                         [''winget'', ''install'', ''nodejs'', ''--silent'',
                          ''--accept-package-agreements'', ''--accept-source-agreements'']] w1 of
                   (Some r, w2) \<Rightarrow> (r, w2)
                 | (None, w2) \<Rightarrow> (nodejs_manual, w2))))
      else (nodejs_manual, w))"

definition major_version_of :: "string \<Rightarrow> int option" where
  \<comment> \<open>\<open>int(version.lstrip('v').split('.')[0])\<close>: None is the ValueError\<close>
  "major_version_of version = py_int (split_first (CHR ''.'') (lstrip_char (CHR ''v'') version))"

definition parsing_failed :: "string \<Rightarrow> string \<Rightarrow> probe_result" where
  \<comment> \<open>the result of the \<open>except (ValueError, IndexError)\<close> handler\<close>
  "parsing_failed node_cmd version =
     plain_result True (''Node.js '' @ version @ '' detected (version parsing failed)'')
       (''Command: '' @ node_cmd @ '', Raw version: '' @ version)"

definition node_probe :: "host \<Rightarrow> string \<Rightarrow> world \<Rightarrow> probe_result option \<times> world" where
  \<comment> \<open>one iteration of \<open>for node_cmd in node_commands\<close>: \<open>Some\<close> is a \<open>return\<close>,
      \<open>None\<close> goes on with the next command\<close>
  "node_probe h node_cmd w =
     (case subprocess_run_text h [node_cmd, ''--version''] w of
        (Inl e, w1) \<Rightarrow> (None, w1)
      | (Inr result, w1) \<Rightarrow>
          (if t_returncode result = 0 then
             (let version = py_strip (t_stdout result)
              in case major_version_of version of
                   None \<Rightarrow> (Some (parsing_failed node_cmd version), w1)
                 | Some major_version \<Rightarrow>
                     (if major_version \<ge> 16 then
                        (case subprocess_run_text h [''npm'', ''--version''] w1 of
                           (Inl e, w2) \<Rightarrow>
                             (case e of
                                ValueError m \<Rightarrow> (Some (parsing_failed node_cmd version), w2)
                              | _ \<Rightarrow> (None, w2))
                         | (Inr npm_result, w2) \<Rightarrow>
                             (Some (plain_result True (''Node.js '' @ version @ '' is installed'')
                                      (''Command: '' @ node_cmd @ '', Version: '' @ version
                                       @ (if t_returncode npm_result = 0
                                          then '', npm: '' @ py_strip (t_stdout npm_result)
                                          else ''''))), w2))
                      else if auto_fix w1 then
                        (case install_nodejs h w1 of (r, w2) \<Rightarrow> (Some r, w2))
                      else
                        (Some (plain_result False
                                 (''Node.js '' @ version @ '' is too old (need v16+)'')
                                 (''Current: '' @ version @ '', Required: v16+'')), w1)))
           else (None, w1)))"

fun node_commands_loop ::
    "host \<Rightarrow> string list \<Rightarrow> world \<Rightarrow> probe_result option \<times> world" where
  "node_commands_loop h [] w = (None, w)"
| "node_commands_loop h (node_cmd # cmds) w =
     (case node_probe h node_cmd w of
        (Some r, w1) \<Rightarrow> (Some r, w1)
      | (None, w1) \<Rightarrow> node_commands_loop h cmds w1)"

fun common_paths_loop ::
    "host \<Rightarrow> string list \<Rightarrow> world \<Rightarrow> probe_result option \<times> world" where
  \<comment> \<open>\<open>for path in common_paths\<close>\<close>
  "common_paths_loop h [] w = (None, w)"
| "common_paths_loop h (path # paths) w =
     (if path_exists h (length (calls w)) path then
        (case subprocess_run_text h [path, ''--version''] w of
           (Inl e, w1) \<Rightarrow> common_paths_loop h paths w1
         | (Inr result, w1) \<Rightarrow>
             (if t_returncode result = 0 then
                (let version = py_strip (t_stdout result)
                 in (Some (plain_result True (''Node.js '' @ version @ '' found at '' @ path)
                             (''Path: '' @ path @ '', Version: '' @ version @ '' (not in PATH)'')),
                     w1))
              else common_paths_loop h paths w1))
      else common_paths_loop h paths w)"

definition common_paths :: "host \<Rightarrow> string list" where
  "common_paths h =
     [foldl (path_join h) (get_or (environ h ''PROGRAMFILES'') '''') [''nodejs'', ''node.exe''],
      foldl (path_join h) (get_or (environ h ''PROGRAMFILES(X86)'') '''') [''nodejs'', ''node.exe''],
      foldl (path_join h) (get_or (environ h ''APPDATA'') '''') [''npm'', ''node.exe''],
      foldl (path_join h) (get_or (environ h ''LOCALAPPDATA'') '''')
        [''nvs'', ''default'', ''node.exe'']]"

definition check_nodejs :: "host \<Rightarrow> world \<Rightarrow> probe_result \<times> world" where
  "check_nodejs h w =
     (case node_commands_loop h [''node'', ''nodejs''] w of
        (Some r, w1) \<Rightarrow> (r, w1)
      | (None, w1) \<Rightarrow>
          (case (if is_windows h then common_paths_loop h (common_paths h) w1 else (None, w1)) of
             (Some r, w2) \<Rightarrow> (r, w2)
           | (None, w2) \<Rightarrow>
               (if auto_fix w2 then install_nodejs h w2
                else (plain_result False ''Node.js not found''
                        ''Node.js is not installed or not accessible. Please install from https://nodejs.org'',
                      w2))))"

section \<open>Example hosts\<close>

text \<open>Concrete machines and sessions on which the theorems below are instantiated.\<close>

definition ok :: "string \<Rightarrow> completed" where
  \<comment> \<open>a subprocess that exits with code 0 and prints the text\<close>
  "ok out = \<lparr>returncode = 0, stdout = Utf8 out, stderr = Utf8 ''''\<rparr>"

definition failed :: "int \<Rightarrow> string \<Rightarrow> completed" where
  "failed rc err = \<lparr>returncode = rc, stdout = Utf8 '''', stderr = Utf8 err\<rparr>"

definition posix_path :: "string list \<Rightarrow> string" where
  \<comment> \<open>\<open>str(PurePosixPath(a, b, ...))\<close>: an absolute part discards the parts before it, the
      root is "//" for exactly two leading slashes and "/" otherwise, empty components and
      "." are dropped, and the empty path is "."\<close>
  "posix_path parts =
     (let anchored = foldl (\<lambda>acc p. if startswith p ''/'' then [p] else acc @ [p]) [] parts;
          root = (case anchored of
                    [] \<Rightarrow> ''''
                  | p # ps \<Rightarrow>
                      (if startswith p ''/''
                       then (if length (takeWhile (\<lambda>c. c = CHR ''/'') p) = 2 then ''//'' else ''/'')
                       else ''''));
          components = concat (map (\<lambda>p. filter (\<lambda>x. x \<noteq> '''' \<and> x \<noteq> ''.'')
                                            (split_on (CHR ''/'') p)) anchored);
          text = root @ py_join ''/'' components
      in if text = '''' then ''.'' else text)"

definition posix_host :: "(nat \<Rightarrow> string list \<Rightarrow> exn + completed) \<Rightarrow> host" where
  \<comment> \<open>a Linux machine without network, on which no probed path exists\<close>
  "posix_host r =
     \<lparr>is_windows = False, run = r, path_exists = (\<lambda>n p. False), home = ''/home/user'',
      environ = (\<lambda>k. None), mkdir_error = (\<lambda>p. None), write_error = (\<lambda>p. None),
      http_get = (\<lambda>u. Inl (Exception ''Connection refused'')), set_order = remdups,
      path_of = posix_path\<rparr>"

definition fresh_world :: world where
  \<comment> \<open>a new session: nothing run, no settings file, no earlier system check\<close>
  "fresh_world =
     \<lparr>calls = [], files = (\<lambda>p. None), dirs = [], writer_calls = [], results_docker = None,
      auto_fix = True\<rparr>"

definition all_ok :: "nat \<Rightarrow> string list \<Rightarrow> exn + completed" where
  "all_ok n argv = Inr (ok '''')"

definition filesystem_entry :: server_dict where
  "filesystem_entry =
     \<lparr>sd_name = Some ''Filesystem MCP Server'', sd_command = Some (CmdStr ''npx''),
      sd_args = Some [''@modelcontextprotocol/server-filesystem''], sd_env = Some []\<rparr>"

definition npm_run :: "nat \<Rightarrow> string list \<Rightarrow> exn + completed" where
  \<comment> \<open>a machine with npm on the PATH and nothing else\<close>
  "npm_run n argv =
     (if argv = [''npm'', ''--version''] then Inr (ok ''10.2.4'')
      else if take 3 argv = [''npm'', ''install'', ''-g''] then Inr (ok ''added 1 package'')
      else Inl (FileNotFoundError ''No such file or directory''))"

definition browser_server :: descriptor where
  \<comment> \<open>the descriptor of test\_docker\_fallback.py\<close>
  "browser_server =
     Descriptor (Some ''Browser Automation MCP Server'') (Some ''docker'') None None
       (Some ''mcr.microsoft.com/playwright/mcp'') None
       (Some (Descriptor None (Some ''npm'') (Some ''@playwright/mcp'') None None None None))"

definition raising_impl :: "descriptor \<Rightarrow> world \<Rightarrow> (exn + install_result) \<times> world" where
  \<comment> \<open>a primary docker path that raises\<close>
  "raising_impl c w = (Inl (Exception ''daemon unreachable''), w)"

definition raising_backend :: backend where
  "raising_backend c t w = (Inl (Exception ''disk full''), w)"

definition filesystem_server :: descriptor where
  \<comment> \<open>the first default server of \<open>_get_default_servers\<close>, without its configuration\<close>
  "filesystem_server =
     Descriptor (Some ''Filesystem MCP Server'') (Some ''npm'')
       (Some ''@modelcontextprotocol/server-filesystem'') None None None None"

definition invalid_server :: descriptor where
  \<comment> \<open>the descriptor of \<open>test_error_handling\<close> in test\_installation.py\<close>
  "invalid_server = Descriptor (Some ''Invalid Server'') (Some ''invalid_type'') None None None None None"

definition python_server :: descriptor where
  \<comment> \<open>a python descriptor with neither "package" nor "repository"\<close>
  "python_server = Descriptor (Some ''Time Server'') (Some ''python'') None None None None None"

definition no_python_run :: "nat \<Rightarrow> string list \<Rightarrow> exn + completed" where
  \<comment> \<open>a machine whose shell knows neither \<open>python\<close> nor \<open>python3\<close>\<close>
  "no_python_run n argv = Inr (failed 127 ''command not found'')"

definition docker_run :: "nat \<Rightarrow> string list \<Rightarrow> exn + completed" where
  \<comment> \<open>a machine with a running Docker engine and no local image\<close>
  "docker_run n argv =
     (if argv = [''docker'', ''--version''] then Inr (ok ''Docker version 24.0.7'')
      else if argv = [''docker'', ''info''] then Inr (ok ''Containers: 0'')
      else if take 3 argv = [''docker'', ''image'', ''inspect''] then Inr (failed 1 ''No such image'')
      else Inl (FileNotFoundError ''No such file or directory''))"

definition local_filesystem_image :: descriptor where
  "local_filesystem_image =
     Descriptor None (Some ''docker'') None None (Some ''mcp-filesystem:latest'') None None"

definition node_run :: "nat \<Rightarrow> string list \<Rightarrow> exn + completed" where
  \<comment> \<open>a machine whose \<open>node --version\<close> prints a banner before the version\<close>
  "node_run n argv =
     (if argv = [''node'', ''--version''] then Inr (ok ''Node v18.2.0'')
      else Inl (FileNotFoundError ''No such file or directory''))"

definition starts_container :: "string list \<Rightarrow> bool" where
  \<comment> \<open>an argv that starts a container\<close>
  "starts_container argv = (take 2 argv = [''docker'', ''run''])"

definition locked_host :: host where
  \<comment> \<open>the machine of \<open>npm_run\<close> with a read-only home: no settings file can be written\<close>
  "locked_host = (posix_host npm_run)\<lparr>write_error := (\<lambda>p. Some (Exception ''Permission denied''))\<rparr>"

definition cline_settings :: string where
  "cline_settings =
     ''/home/user/.config/Code/User/globalStorage/saoudrizwan.claude-dev/settings/cline_mcp_settings.json''"

definition damaged_world :: world where
  \<comment> \<open>a session in which Cline's settings file holds a JSON list\<close>
  "damaged_world = fresh_world\<lparr>files := (\<lambda>p. if p = cline_settings then Some (JsonFile (JArr [])) else None)\<rparr>"

definition nodejs_run :: "nat \<Rightarrow> string list \<Rightarrow> exn + completed" where
  \<comment> \<open>a machine on which the interpreter is called \<open>nodejs\<close> and is a nightly build\<close>
  "nodejs_run n argv =
     (if argv = [''nodejs'', ''--version''] then Inr (ok ''v20-nightly'')
      else Inl (FileNotFoundError ''No such file or directory''))"

definition pull_timeout_run :: "nat \<Rightarrow> string list \<Rightarrow> exn + completed" where
  \<comment> \<open>a machine with a running Docker engine and with npm, on which \<open>docker pull\<close> does
      not end within its ten minutes\<close>
  "pull_timeout_run n argv =
     (if argv = [''docker'', ''--version''] then Inr (ok ''Docker version 24.0.7'')
      else if argv = [''docker'', ''info''] then Inr (ok ''Containers: 0'')
      else if take 2 argv = [''docker'', ''pull'']
      then Inl (TimeoutExpired ''Command timed out after 600 seconds'')
      else if argv = [''npm'', ''--version''] then Inr (ok ''10.2.4'')
      else if take 3 argv = [''npm'', ''install'', ''-g''] then Inr (ok ''added 1 package'')
      else Inl (FileNotFoundError ''No such file or directory''))"

definition time_image :: descriptor where
  \<comment> \<open>a local-build image whose name is not in the table of Dockerfiles\<close>
  "time_image =
     Descriptor None (Some ''docker'') None None (Some ''mcp-time:latest'') None None"

definition default_catalog :: json where
  \<comment> \<open>a catalog with the first default server of \<open>_get_default_servers\<close>\<close>
  "default_catalog =
     JObj [(''servers'',
            JObj [(''filesystem'',
                   JObj [(''name'', JStr ''Filesystem MCP Server''),
                         (''type'', JStr ''npm''),
                         (''package'', JStr ''@modelcontextprotocol/server-filesystem'')])])]"

definition time_package :: json where
  "time_package =
     JObj [(''package'', JObj [(''name'', JStr ''mcp-server-time''), (''version'', JStr ''1.0.0'')])]"

definition demo_repo :: json where
  "demo_repo =
     JObj [(''name'', JStr ''mcp-server-demo''),
           (''description'', JNull),
           (''clone_url'', JStr ''https://github.com/demo/mcp-server-demo.git''),
           (''stargazers_count'', JNum 7),
           (''language'', JStr ''Python'')]"

definition mixed_host :: host where
  \<comment> \<open>a machine that cannot connect to GitHub's API, gets one package from the npm registry
      and a 404 for the README\<close>
  "mixed_host =
     (posix_host all_ok)
       \<lparr>http_get :=
          (\<lambda>url. if url = ''https://registry.npmjs.org/-/v1/search''
                 then Inr \<lparr>status_code = 200, body_text = ''{...}'',
                            body_json = Inr (JObj [(''objects'', JArr [time_package])])\<rparr>
                 else if url = ''https://raw.githubusercontent.com/modelcontextprotocol/servers/main/README.md''
                 then Inr \<lparr>status_code = 404, body_text = ''404: Not Found'',
                            body_json = Inl (ValueError ''Expecting value'')\<rparr>
                 else Inl (Exception ''Connection refused''))\<rparr>"

definition half_host :: host where
  \<comment> \<open>a machine to which GitHub's API answers with a repository followed by an item
      without the key "name", and which reaches no other registry\<close>
  "half_host =
     (posix_host all_ok)
       \<lparr>http_get :=
          (\<lambda>url. if url = ''https://api.github.com/search/repositories''
                 then Inr \<lparr>status_code = 200, body_text = ''{...}'',
                            body_json = Inr (JObj [(''items'', JArr [demo_repo, JObj []])])\<rparr>
                 else Inl (Exception ''Connection refused''))\<rparr>"

section \<open>Properties\<close>

subsection \<open>Helper facts\<close>

lemma unknown_extension_not_configured:
  "extension \<noteq> ''cline'' \<Longrightarrow> extension \<noteq> ''roo''
     \<Longrightarrow> dict_get (extension_configs h) extension = None"
  by (simp add: extension_configs_def)

lemma get_extension_config_writer_calls:
  "get_extension_config h e (w\<lparr>writer_calls := x\<rparr>) = get_extension_config h e w"
  by (simp add: get_extension_config_def cong: option.case_cong)

subsection \<open>The IDE configuration writer\<close>

text \<open>
  C10.  The writer knows the extensions "cline" and "roo" only.  For every other extension
  name (such as "claude\_desktop", which the npm success path passes as well),
  \<open>add_server_to_extension\<close> returns False, writes no settings file, creates no directory,
  starts no subprocess, and leaves the configuration of every extension as it was: the
  only trace of the call is its entry in the list of invocations.
\<close>

theorem add_server_to_unknown_extension:
  assumes "extension \<noteq> ''cline''" and "extension \<noteq> ''roo''"
  shows "add_server_to_extension h extension server_config w =
           (Inr False, w\<lparr>writer_calls := writer_calls w @ [(extension, server_config)]\<rparr>)
         \<and> files (snd (add_server_to_extension h extension server_config w)) = files w
         \<and> dirs (snd (add_server_to_extension h extension server_config w)) = dirs w
         \<and> calls (snd (add_server_to_extension h extension server_config w)) = calls w
         \<and> (\<forall>e. get_extension_config h e (snd (add_server_to_extension h extension server_config w))
                  = get_extension_config h e w)"
proof -
  have none: "dict_get (extension_configs h) extension = None"
    using assms by (rule unknown_extension_not_configured)
  have eq: "add_server_to_extension h extension server_config w =
              (Inr False, w\<lparr>writer_calls := writer_calls w @ [(extension, server_config)]\<rparr>)"
    using assms
    by (simp add: add_server_to_extension_def get_extension_config_def
          save_extension_config_def none ensure_mcp_servers_def Let_def)
  show ?thesis
    by (simp add: eq get_extension_config_writer_calls)
qed

theorem add_server_to_unknown_extension_witness:
  "''claude_desktop'' \<noteq> ''cline'' \<and> ''claude_desktop'' \<noteq> ''roo''
   \<and> add_server_to_extension (posix_host all_ok) ''claude_desktop'' filesystem_entry fresh_world =
       (Inr False, fresh_world\<lparr>writer_calls := [(''claude_desktop'', filesystem_entry)]\<rparr>)
   \<and> files (snd (add_server_to_extension (posix_host all_ok) ''claude_desktop'' filesystem_entry
                   fresh_world)) = files fresh_world"
proof -
  have a: "''claude_desktop'' \<noteq> ''cline''" and b: "''claude_desktop'' \<noteq> ''roo''" by simp_all
  from add_server_to_unknown_extension [OF a b, of "posix_host all_ok" filesystem_entry fresh_world]
  show ?thesis by (simp add: fresh_world_def)
qed

lemma catch_apfst_Inr:
  "(case apfst Inr p of (Inl e, w') \<Rightarrow> g e w' | (Inr r, w') \<Rightarrow> (Inr r, w')) = apfst Inr p"
  by (cases p) simp

lemma install_server_with_returns:
  "\<exists>r w'. install_server_with npm git python docker server_config target_path w = (Inr r, w')"
  unfolding install_server_with_def Let_def
  by (auto split: prod.splits sum.splits)

lemmas host_defs =
  posix_host_def fresh_world_def ok_def failed_def subprocess_run_def subprocess_run_text_def
  decode_def decode_completed_def

lemmas writer_defs =
  add_server_to_extension_def get_extension_config_def extension_configs_def
  save_extension_config_def ensure_mcp_servers_def set_server_def entry_json_def mkdir_def
  config_file_path_def path_join_def get_cline_config_path_def get_roo_config_path_def sep_def
  startswith_def

lemmas npm_defs =
  install_npm_server_def install_npm_body_def npm_probe_def configure_server_in_vscode_def
  npm_vscode_config_def no_configuration_def get_or_def Let_def

lemmas dispatch_defs =
  install_server_def install_server_using_def install_server_with_def install_docker_server_def
  install_fallback_server_def is_empty_dict_def dict_update_def or_else_def

lemma install_docker_server_impl_returns:
  "\<exists>r w'. install_docker_server_impl h server_config w = (Inr r, w')"
  unfolding install_docker_server_impl_def Let_def
  by (auto split: prod.splits sum.splits exn.splits)


lemma subprocess_run_calls:
  "subprocess_run h argv w = (r, w') \<Longrightarrow> calls w' = calls w @ [argv]"
  by (auto simp: subprocess_run_def)

lemma subprocess_run_text_calls:
  "subprocess_run_text h argv w = (r, w') \<Longrightarrow> calls w' = calls w @ [argv]"
  by (auto simp: subprocess_run_text_def subprocess_run_def split: sum.splits)

lemma pip_install_calls:
  "pip_install h python_cmd package repository w = (r, w') \<Longrightarrow> \<exists>ys. calls w' = calls w @ ys"
  unfolding pip_install_def
  by (auto split: if_splits prod.splits sum.splits dest: subprocess_run_text_calls)

lemma install_python_body_calls:
  assumes "install_python_body h package repository w = (r, w')"
  shows "\<exists>ys. calls w' = calls w @ [''python'', ''--version''] # ys"
proof (cases "subprocess_run h [''python'', ''--version''] w")
  case (Pair a w1)
  have c1: "calls w1 = calls w @ [[''python'', ''--version'']]"
    using Pair by (rule subprocess_run_calls)
  show ?thesis
  proof (cases a)
    case (Inl e)
    with Pair assms c1 show ?thesis by (simp add: install_python_body_def)
  next
    case (Inr python_check)
    show ?thesis
    proof (cases "returncode python_check = 0")
      case True
      with Pair Inr assms have "pip_install h ''python'' package repository w1 = (r, w')"
        by (simp add: install_python_body_def)
      from pip_install_calls [OF this] c1 show ?thesis by auto
    next
      case False
      obtain b w2 where p3: "subprocess_run h [''python3'', ''--version''] w1 = (b, w2)"
        by (cases "subprocess_run h [''python3'', ''--version''] w1")
      have c2: "calls w2 = calls w1 @ [[''python3'', ''--version'']]"
        using p3 by (rule subprocess_run_calls)
      show ?thesis
      proof (cases b)
        case (Inl e)
        with Pair Inr False p3 assms c1 c2 show ?thesis by (simp add: install_python_body_def)
      next
        case (Inr python3_check)
        show ?thesis
        proof (cases "returncode python3_check = 0")
          case True
          with Pair \<open>a = Inr python_check\<close> False p3 Inr assms
          have "pip_install h ''python3'' package repository w2 = (r, w')"
            by (simp add: install_python_body_def)
          from pip_install_calls [OF this] c1 c2 show ?thesis by auto
        next
          case nz: False
          with Pair \<open>a = Inr python_check\<close> False p3 Inr assms c1 c2 show ?thesis
            by (simp add: install_python_body_def)
        qed
      qed
    qed
  qed
qed

lemma install_python_server_calls:
  "\<exists>ys. calls (snd (install_python_server h server_config target_path w))
          = calls w @ [''python'', ''--version''] # ys"
proof -
  obtain r w' where b: "install_python_body h (get_or (d_package server_config) '''')
                          (get_or (d_repository server_config) '''') w = (r, w')"
    by (cases "install_python_body h (get_or (d_package server_config) '''')
                          (get_or (d_repository server_config) '''') w")
  from install_python_body_calls [OF b] obtain ys
    where "calls w' = calls w @ [''python'', ''--version''] # ys" by blast
  moreover have "snd (install_python_server h server_config target_path w) = w'"
    using b by (simp add: install_python_server_def Let_def split: sum.splits exn.splits)
  ultimately show ?thesis by simp
qed

text \<open>
  Every run of the python backend starts with the subprocess \<open>python --version\<close>,
  whatever the descriptor holds.
\<close>

lemma python_always_probes:
  assumes "d_type server_config = Some ''python''"
  shows "\<exists>ys. calls (snd (install_server h server_config target_path w))
           = calls w @ [''python'', ''--version''] # ys"
proof -
  have "snd (install_server h server_config target_path w)
          = snd (install_python_server h server_config target_path w)"
    using assms
    by (simp add: install_server_def install_server_using_def install_server_with_def
          get_or_def Let_def catch_apfst_Inr)
  with install_python_server_calls show ?thesis by simp
qed

subsection \<open>The dispatcher\<close>

text \<open>
  C1.  For every descriptor whose "type" (read with the default "unknown") is none of "npm",
  "git", "python" and "docker", \<open>install_server\<close> returns
  (False, "Unsupported server type: " + type) and leaves the world as it was: no subprocess
  is started, nothing is written.
\<close>

theorem unsupported_server_type:
  assumes "get_or (d_type server_config) ''unknown'' = t"
      and "t \<noteq> ''npm''" and "t \<noteq> ''git''" and "t \<noteq> ''python''" and "t \<noteq> ''docker''"
  shows "install_server h server_config target_path w =
           (Inr (False, ''Unsupported server type: '' @ t), w)
         \<and> calls (snd (install_server h server_config target_path w)) = calls w"
  using assms
  by (simp add: install_server_def install_server_using_def install_server_with_def)

theorem unsupported_server_type_witness:
  "get_or (d_type invalid_server) ''unknown'' = ''invalid_type''
   \<and> ''invalid_type'' \<noteq> ''npm'' \<and> ''invalid_type'' \<noteq> ''git''
   \<and> ''invalid_type'' \<noteq> ''python'' \<and> ''invalid_type'' \<noteq> ''docker''
   \<and> install_server (posix_host all_ok) invalid_server None fresh_world =
       (Inr (False, ''Unsupported server type: invalid_type''), fresh_world)
   \<and> calls (snd (install_server (posix_host all_ok) invalid_server None fresh_world)) = []"
proof -
  have t: "get_or (d_type invalid_server) ''unknown'' = ''invalid_type''"
    by (simp add: invalid_server_def get_or_def)
  have n: "''invalid_type'' \<noteq> ''npm''" "''invalid_type'' \<noteq> ''git''"
    "''invalid_type'' \<noteq> ''python''" "''invalid_type'' \<noteq> ''docker''"
    by simp_all
  from unsupported_server_type [OF t n, of "posix_host all_ok" None fresh_world]
  show ?thesis using t by (simp add: fresh_world_def)
qed

text \<open>
  C2.  \<open>install_server\<close> always returns a (bool, string) pair and never an exception,
  whatever the four backend methods do: when the backend chosen by the type raises an
  exception e, the result is (False, "Installation failed: " + str(e)).  In particular
  the dispatcher over the backends of this module always returns a pair.
\<close>

theorem install_server_never_raises:
  "(\<exists>r w'. install_server_with npm git python docker server_config target_path w = (Inr r, w'))
   \<and> (\<exists>r w'. install_server h server_config target_path w = (Inr r, w'))
   \<and> (d_type server_config = Some ''npm'' \<and> npm server_config target_path w = (Inl e, w1)
        \<longrightarrow> install_server_with npm git python docker server_config target_path w
              = (Inr (False, ''Installation failed: '' @ str_exn e), w1))
   \<and> (d_type server_config = Some ''git'' \<and> git server_config target_path w = (Inl e, w1)
        \<longrightarrow> install_server_with npm git python docker server_config target_path w
              = (Inr (False, ''Installation failed: '' @ str_exn e), w1))
   \<and> (d_type server_config = Some ''python'' \<and> python server_config target_path w = (Inl e, w1)
        \<longrightarrow> install_server_with npm git python docker server_config target_path w
              = (Inr (False, ''Installation failed: '' @ str_exn e), w1))
   \<and> (d_type server_config = Some ''docker'' \<and> docker server_config w = (Inl e, w1)
        \<longrightarrow> install_server_with npm git python docker server_config target_path w
              = (Inr (False, ''Installation failed: '' @ str_exn e), w1))"
proof (intro conjI)
  show "\<exists>r w'. install_server_with npm git python docker server_config target_path w = (Inr r, w')"
    by (rule install_server_with_returns)
  show "\<exists>r w'. install_server h server_config target_path w = (Inr r, w')"
    unfolding install_server_def install_server_using_def by (rule install_server_with_returns)
qed (simp_all add: install_server_with_def get_or_def)

theorem install_server_never_raises_witness:
  "d_type filesystem_server = Some ''npm''
   \<and> raising_backend filesystem_server None fresh_world = (Inl (Exception ''disk full''), fresh_world)
   \<and> install_server_with raising_backend raising_backend raising_backend
         (\<lambda>c. raising_backend c None) filesystem_server None fresh_world
       = (Inr (False, ''Installation failed: disk full''), fresh_world)"
proof -
  have a: "d_type filesystem_server = Some ''npm''"
    by (simp add: filesystem_server_def)
  have b: "raising_backend filesystem_server None fresh_world
             = (Inl (Exception ''disk full''), fresh_world)"
    by (simp add: raising_backend_def)
  from install_server_never_raises
         [of raising_backend raising_backend raising_backend "\<lambda>c. raising_backend c None"
             filesystem_server None fresh_world "posix_host all_ok" "Exception ''disk full''"
             fresh_world]
  show ?thesis using a b by simp
qed

text \<open>
  The handler of \<open>_install_docker_server\<close>, for any method in the place of the primary
  path: if that method raises an exception e and the descriptor carries a fallback of type
  "npm", the result is the result of one run of the npm backend on the descriptor updated
  with the fallback's keys, started in the world the failed attempt left; with no fallback
  the result is (False, "Docker installation failed: " + str(e)).
\<close>

lemma docker_handler_falls_back:
  assumes "d_type server_config = Some ''docker''"
      and "get_or (d_image server_config) '''' \<noteq> ''''"
      and "impl server_config w = (Inl e, w1)"
  shows "(d_fallback server_config = Some fb \<and> d_type fb = Some ''npm''
            \<longrightarrow> install_server_using impl h server_config target_path w
                  = apfst Inr (install_npm_server h (dict_update server_config fb) None w1))
         \<and> (d_fallback server_config = None
            \<longrightarrow> install_server_using impl h server_config target_path w
                  = (Inr (False, ''Docker installation failed: '' @ str_exn e), w1))"
  using assms
  by (simp add: install_server_using_def install_server_with_def install_docker_server_def
        install_fallback_server_def is_empty_dict_def get_or_def Let_def catch_apfst_Inr)

lemma docker_handler_falls_back_example:
  "d_type browser_server = Some ''docker''
   \<and> get_or (d_image browser_server) '''' \<noteq> ''''
   \<and> raising_impl browser_server fresh_world = (Inl (Exception ''daemon unreachable''), fresh_world)
   \<and> d_fallback browser_server
        = Some (Descriptor None (Some ''npm'') (Some ''@playwright/mcp'') None None None None)
   \<and> fst (install_server_using raising_impl (posix_host npm_run) browser_server None fresh_world)
        = Inr (True, ''Successfully installed Browser Automation MCP Server'')
   \<and> calls (snd (install_server_using raising_impl (posix_host npm_run) browser_server None
                    fresh_world))
        = [[''npm'', ''--version''], [''npm'', ''install'', ''-g'', ''@playwright/mcp'']]"
proof -
  let ?fb = "Descriptor None (Some ''npm'') (Some ''@playwright/mcp'') None None None None"
  have a: "d_type browser_server = Some ''docker''"
    by (simp add: browser_server_def)
  have b: "get_or (d_image browser_server) '''' \<noteq> ''''"
    by (simp add: browser_server_def get_or_def)
  have c: "raising_impl browser_server fresh_world
             = (Inl (Exception ''daemon unreachable''), fresh_world)"
    by (simp add: raising_impl_def)
  have d: "d_fallback browser_server = Some ?fb \<and> d_type ?fb = Some ''npm''"
    by (simp add: browser_server_def)
  have run: "fst (install_npm_server (posix_host npm_run) (dict_update browser_server ?fb) None
                    fresh_world)
               = (True, ''Successfully installed Browser Automation MCP Server'')
             \<and> calls (snd (install_npm_server (posix_host npm_run)
                              (dict_update browser_server ?fb) None fresh_world))
               = [[''npm'', ''--version''], [''npm'', ''install'', ''-g'', ''@playwright/mcp'']]"
    by (simp add: browser_server_def dict_update_def or_else_def npm_defs host_defs npm_run_def
          writer_defs)
  from docker_handler_falls_back
         [where server_config = browser_server and impl = raising_impl and w = fresh_world
            and e = "Exception ''daemon unreachable''" and ?w1.0 = fresh_world and fb = ?fb
            and h = "posix_host npm_run" and target_path = None] a b c d
  have "install_server_using raising_impl (posix_host npm_run) browser_server None fresh_world
          = apfst Inr (install_npm_server (posix_host npm_run) (dict_update browser_server ?fb)
                         None fresh_world)"
    by blast
  with run a b c d show ?thesis by (simp add: apfst_def map_prod_def split_beta)
qed

text \<open>
  With the method the module ships, the handler is never entered:
  \<open>_install_docker_server_impl\<close> catches every exception of its own body and returns a
  failure.
\<close>

lemma install_server_docker:
  assumes "d_type server_config = Some ''docker''"
      and "get_or (d_image server_config) '''' \<noteq> ''''"
  shows "install_server h server_config target_path w
           = install_docker_server_impl h server_config w"
proof -
  obtain r w' where impl: "install_docker_server_impl h server_config w = (Inr r, w')"
    using install_docker_server_impl_returns by blast
  show ?thesis
    using assms impl
    by (simp add: install_server_def install_server_using_def install_server_with_def
          install_docker_server_def get_or_def Let_def)
qed

text \<open>
  C3.  Take a docker descriptor with an image, and let the body of the primary installation
  path raise an exception e.  Whatever fallback the descriptor carries, \<open>install_server\<close>
  returns (False, "Docker pull timed out") when e is a timeout and
  (False, "Docker installation error: " + str(e)) otherwise, in the world the failed
  attempt left: the npm backend is not tried.
\<close>

theorem docker_fallback_never_runs:
  assumes "d_type server_config = Some ''docker''"
      and "get_or (d_image server_config) '''' \<noteq> ''''"
      and "install_docker_server_impl_body h server_config (get_or (d_image server_config) '''') w
             = (Inl e, w1)"
  shows "install_server h server_config target_path w
           = (Inr (False, case e of
                            TimeoutExpired m \<Rightarrow> ''Docker pull timed out''
                          | _ \<Rightarrow> ''Docker installation error: '' @ str_exn e), w1)"
  using assms
  by (simp add: install_server_docker install_docker_server_impl_def Let_def split: exn.splits)

theorem docker_fallback_never_runs_witness:
  "d_type browser_server = Some ''docker''
   \<and> d_fallback browser_server
       = Some (Descriptor None (Some ''npm'') (Some ''@playwright/mcp'') None None None None)
   \<and> install_docker_server_impl_body (posix_host pull_timeout_run) browser_server
         ''mcr.microsoft.com/playwright/mcp'' fresh_world
       = (Inl (TimeoutExpired ''Command timed out after 600 seconds''),
          fresh_world\<lparr>calls := [[''docker'', ''--version''], [''docker'', ''info''],
                                 [''docker'', ''pull'', ''mcr.microsoft.com/playwright/mcp'']]\<rparr>)
   \<and> install_server (posix_host pull_timeout_run) browser_server None fresh_world
       = (Inr (False, ''Docker pull timed out''),
          fresh_world\<lparr>calls := [[''docker'', ''--version''], [''docker'', ''info''],
                                 [''docker'', ''pull'', ''mcr.microsoft.com/playwright/mcp'']]\<rparr>)
   \<and> fst (install_npm_server (posix_host pull_timeout_run)
              (dict_update browser_server
                 (Descriptor None (Some ''npm'') (Some ''@playwright/mcp'') None None None None))
              None
              (fresh_world\<lparr>calls := [[''docker'', ''--version''], [''docker'', ''info''],
                                      [''docker'', ''pull'', ''mcr.microsoft.com/playwright/mcp'']]\<rparr>))
       = (True, ''Successfully installed Browser Automation MCP Server'')"
proof -
  let ?h = "posix_host pull_timeout_run"
  let ?w1 = "fresh_world\<lparr>calls := [[''docker'', ''--version''], [''docker'', ''info''],
                                    [''docker'', ''pull'', ''mcr.microsoft.com/playwright/mcp'']]\<rparr>"
  let ?e = "TimeoutExpired ''Command timed out after 600 seconds''"
  have a: "d_type browser_server = Some ''docker''"
    by (simp add: browser_server_def)
  have b: "get_or (d_image browser_server) '''' \<noteq> ''''"
    by (simp add: browser_server_def get_or_def)
  have img: "get_or (d_image browser_server) '''' = ''mcr.microsoft.com/playwright/mcp''"
    by (simp add: browser_server_def get_or_def)
  have fb: "d_fallback browser_server
              = Some (Descriptor None (Some ''npm'') (Some ''@playwright/mcp'') None None None None)"
    by (simp add: browser_server_def)
  have ready: "docker_ready ?h fresh_world
                 = (None, fresh_world\<lparr>calls := [[''docker'', ''--version''], [''docker'', ''info'']]\<rparr>)"
    by (simp add: docker_ready_def get_docker_status_def check_docker_def host_defs
          pull_timeout_run_def Let_def first_containing_def startswith_def py_strip_def
          is_space_def)
  have step: "docker_image_step ?h browser_server ''mcr.microsoft.com/playwright/mcp''
                (fresh_world\<lparr>calls := [[''docker'', ''--version''], [''docker'', ''info'']]\<rparr>)
              = (Inl ?e, ?w1)"
    by (simp add: docker_image_step_def is_local_build_def startswith_def host_defs
          pull_timeout_run_def Let_def)
  have c: "install_docker_server_impl_body ?h browser_server
             (get_or (d_image browser_server) '''') fresh_world = (Inl ?e, ?w1)"
    by (simp add: img install_docker_server_impl_body_def ready step)
  have npm: "fst (install_npm_server ?h
              (dict_update browser_server
                 (Descriptor None (Some ''npm'') (Some ''@playwright/mcp'') None None None None))
              None ?w1)
             = (True, ''Successfully installed Browser Automation MCP Server'')"
    by (simp add: browser_server_def dict_update_def or_else_def npm_defs host_defs
          pull_timeout_run_def writer_defs)
  from docker_fallback_never_runs [OF a b c, of None]
  have "install_server ?h browser_server None fresh_world
          = (Inr (False, ''Docker pull timed out''), ?w1)"
    by simp
  with a fb c img npm show ?thesis by simp
qed

text \<open>
  C4.  The python backend looks at "package" and "repository" only after it has probed the
  interpreter.  For a python descriptor with neither key, on a machine where \<open>python\<close>
  and \<open>python3\<close> exit with a non-zero code, two subprocesses run and the result is
  "Python is not available"; where \<open>python\<close> answers, the message "No package or
  repository specified for Python server" comes after the subprocess \<open>python --version\<close>.
\<close>

theorem python_probe_before_validation:
  "install_server (posix_host no_python_run) python_server None fresh_world
     = (Inr (False, ''Python is not available. Please install Python first.''),
        fresh_world\<lparr>calls := [[''python'', ''--version''], [''python3'', ''--version'']]\<rparr>)
   \<and> install_server (posix_host all_ok) python_server None fresh_world
     = (Inr (False, ''No package or repository specified for Python server''),
        fresh_world\<lparr>calls := [[''python'', ''--version'']]\<rparr>)"
  by (simp add: dispatch_defs python_server_def install_python_server_def install_python_body_def
        pip_install_def host_defs no_python_run_def all_ok_def get_or_def)

subsection \<open>The docker backend\<close>

lemma check_docker_calls:
  "check_docker h w = (r, w') \<Longrightarrow>
     \<exists>ys. calls w' = calls w @ ys \<and> set ys \<subseteq> {[''docker'', ''--version''], [''docker'', ''info'']}"
  unfolding check_docker_def Let_def
  by (auto split: prod.splits sum.splits if_splits dest!: subprocess_run_text_calls)

lemma get_docker_status_calls:
  "get_docker_status h w = (r, w') \<Longrightarrow>
     \<exists>ys. calls w' = calls w @ ys \<and> set ys \<subseteq> {[''docker'', ''--version''], [''docker'', ''info'']}"
  unfolding get_docker_status_def
  by (auto split: option.splits dest: check_docker_calls)

lemma docker_image_exists_calls:
  "docker_image_exists h img w = (r, w') \<Longrightarrow>
     calls w' = calls w @ [[''docker'', ''image'', ''inspect'', img]]"
  unfolding docker_image_exists_def
  by (auto split: prod.splits sum.splits dest!: subprocess_run_calls)

lemma docker_ready_available:
  "get_docker_status h w = (docker_status, w1) \<Longrightarrow> status docker_status \<Longrightarrow>
     docker_ready h w = (None, w1)"
  by (simp add: docker_ready_def)

lemma build_without_dockerfile:
  "\<not> path_exists h (length (calls w)) (path_join h ''docker'' ''Dockerfile.filesystem'') \<Longrightarrow>
     build_local_docker_image h server_config ''mcp-filesystem:latest'' w
       = ((False, ''Dockerfile not found: '' @ path_join h ''docker'' ''Dockerfile.filesystem''), w)"
  by (simp add: build_local_docker_image_def build_local_docker_image_body_def dockerfile_map_def
        split_first_def Let_def)

lemma unmapped_image_has_no_dockerfile:
  "dict_get dockerfile_map (split_first (CHR '':'') img) = None \<Longrightarrow>
     build_local_docker_image h server_config img w
       = ((False, ''No Dockerfile found for image: '' @ split_first (CHR '':'') img), w)"
  by (simp add: build_local_docker_image_def build_local_docker_image_body_def Let_def)

lemma local_build_returns:
  "is_local_build img \<Longrightarrow>
     \<exists>r w'. docker_image_step h server_config img w = (Inr (Returned r), w')"
  by (auto simp: docker_image_step_def split: prod.splits)

lemma falls_through_is_bound:
  "docker_image_step h server_config img w = (Inr (Falls_through cmd res), w') \<Longrightarrow>
     \<not> is_local_build img \<and> cmd = Some [''docker'', ''pull'', img] \<and> res \<noteq> None"
  by (auto simp: docker_image_step_def Let_def split: prod.splits sum.splits if_splits)

lemma pull_cmd_never_unbound:
  "\<not> reaches_pull_cmd_unbound h server_config w"
  by (auto simp: reaches_pull_cmd_unbound_def
           split: prod.splits option.splits sum.splits image_step.splits
           dest: falls_through_is_bound)

lemma daemon_container_failure:
  "daemon_container h config img server_name w = (Inr (Inl r), w') \<Longrightarrow>
     fst r \<or> startswith (snd r) ''Docker''"
  unfolding daemon_container_def Let_def
  by (auto simp: startswith_def
           split: prod.splits sum.splits if_splits cmd_val.splits)

lemma run_docker_container_names_docker:
  "run_docker_container h server_config img w = (r, w') \<Longrightarrow>
     fst r \<or> startswith (snd r) ''Docker''"
proof -
  assume run: "run_docker_container h server_config img w = (r, w')"
  obtain b w1 where body: "run_docker_container_body h server_config img
                             (get_or (d_name server_config) ''Server'') w = (b, w1)"
    by (cases "run_docker_container_body h server_config img
                 (get_or (d_name server_config) ''Server'') w")
  show ?thesis
  proof (cases b)
    case (Inl e)
    with run body show ?thesis
      by (auto simp: run_docker_container_def startswith_def Let_def
               split: exn.splits)
  next
    case (Inr r')
    with run body have rr: "r = r'" by (simp add: run_docker_container_def Let_def)
    from body Inr show ?thesis
      unfolding run_docker_container_body_def Let_def rr
      by (auto simp: startswith_def
               split: prod.splits sum.splits if_splits
               dest: daemon_container_failure)
  qed
qed


lemma build_local_names_docker:
  "dict_get dockerfile_map (split_first (CHR '':'') img) = Some dockerfile \<Longrightarrow>
     build_local_docker_image h server_config img w = (r, w') \<Longrightarrow>
     fst r \<or> startswith (snd r) ''Docker''"
  unfolding build_local_docker_image_def build_local_docker_image_body_def Let_def
  by (auto simp: startswith_def
           split: prod.splits sum.splits if_splits exn.splits)

lemma build_and_run_names_docker:
  "dict_get dockerfile_map (split_first (CHR '':'') img) = Some dockerfile \<Longrightarrow>
     build_and_run_docker_image h server_config img w = (r, w') \<Longrightarrow>
     fst r \<or> startswith (snd r) ''Docker''"
  unfolding build_and_run_docker_image_def
  by (auto split: prod.splits if_splits
           dest: build_local_names_docker run_docker_container_names_docker)

lemma mapped_image_without_dockerfile:
  "dict_get dockerfile_map (split_first (CHR '':'') img) = Some dockerfile \<Longrightarrow>
   \<not> path_exists h (length (calls w)) (path_join h ''docker'' dockerfile) \<Longrightarrow>
     build_and_run_docker_image h server_config img w
       = ((False, ''Dockerfile not found: '' @ path_join h ''docker'' dockerfile), w)"
  by (simp add: build_and_run_docker_image_def build_local_docker_image_def
        build_local_docker_image_body_def Let_def)

lemma unmapped_image_fails:
  "dict_get dockerfile_map (split_first (CHR '':'') img) = None \<Longrightarrow>
     build_and_run_docker_image h server_config img w
       = ((False, ''No Dockerfile found for image: '' @ split_first (CHR '':'') img), w)"
  by (simp add: build_and_run_docker_image_def build_local_docker_image_def
        build_local_docker_image_body_def Let_def)

lemma dockerfile_map_pairs:
  "(name, dockerfile) \<in> set [(''mcp-filesystem'', ''Dockerfile.filesystem''),
                              (''mcp-browser'', ''Dockerfile.playwright''),
                              (''mcp-git'', ''Dockerfile.git''),
                              (''mcp-memory'', ''Dockerfile.memory'')]
   \<Longrightarrow> dict_get dockerfile_map name = Some dockerfile"
  by (auto simp: dockerfile_map_def)

lemma dockerfile_map_names:
  "(name \<in> set [''mcp-filesystem'', ''mcp-browser'', ''mcp-git'', ''mcp-memory''])
     = (dict_get dockerfile_map name \<noteq> None)"
  by (simp add: dockerfile_map_def)

lemma install_local_build:
  assumes "d_type server_config = Some ''docker''"
      and "d_image server_config = Some img"
      and "is_local_build img"
      and "get_docker_status h w = (docker_status, w1)"
      and "status docker_status"
      and "docker_image_exists h img w1 = (False, w2)"
  shows "install_server h server_config target_path w
           = apfst Inr (build_and_run_docker_image h server_config img w2)"
proof -
  have nonempty: "img \<noteq> ''''"
    using assms(3) by (auto simp: is_local_build_def startswith_def)
  have ready: "docker_ready h w = (None, w1)"
    using assms(4,5) by (rule docker_ready_available)
  obtain r w3 where build: "build_and_run_docker_image h server_config img w2 = (r, w3)"
    by (cases "build_and_run_docker_image h server_config img w2")
  have step: "docker_image_step h server_config img w1 = (Inr (Returned r), w3)"
    using assms(3,6) build by (simp add: docker_image_step_def)
  have impl: "install_docker_server_impl h server_config w = (Inr r, w3)"
    using assms(2) ready step
    by (simp add: install_docker_server_impl_def install_docker_server_impl_body_def
          after_image_step_def get_or_def)
  show ?thesis
    using assms(1,2) nonempty impl build
    by (simp add: install_server_def install_server_using_def install_server_with_def
          install_docker_server_def get_or_def Let_def)
qed

text \<open>
  C5.  Take a docker descriptor with a local-build image, a machine on which Docker is
  available (the status check succeeds) and on which \<open>docker image inspect\<close> does not
  find the image.  None of the subprocesses run so far starts a container, and:

  \<^item> for the image "mcp-filesystem:latest", when the file docker/Dockerfile.filesystem does
    not exist, the installation fails with "Dockerfile not found: " followed by the path
    of that file, in the world the inspection left;
  \<^item> the same holds for each of the four names of the table of Dockerfiles
    (mcp-filesystem, mcp-browser, mcp-git, mcp-memory) and its file (Dockerfile.filesystem,
    Dockerfile.playwright, Dockerfile.git, Dockerfile.memory);
  \<^item> for a name outside the table the installation fails with
    "No Dockerfile found for image: " followed by the name;
  \<^item> for a name of the table the result is never that message, whatever the name in it.
\<close>

theorem local_image_without_dockerfile:
  assumes "d_type server_config = Some ''docker''"
      and "d_image server_config = Some img"
      and "is_local_build img"
      and "get_docker_status h w = (docker_status, w1)"
      and "status docker_status"
      and "docker_image_exists h img w1 = (False, w2)"
  shows "(img = ''mcp-filesystem:latest''
            \<and> \<not> path_exists h (length (calls w2)) (path_join h ''docker'' ''Dockerfile.filesystem'')
          \<longrightarrow> install_server h server_config target_path w
                = (Inr (False, ''Dockerfile not found: ''
                               @ path_join h ''docker'' ''Dockerfile.filesystem''), w2))
         \<and> filter starts_container (drop (length (calls w)) (calls w2)) = []
         \<and> (\<forall>dockerfile.
               (split_first (CHR '':'') img, dockerfile)
                 \<in> set [(''mcp-filesystem'', ''Dockerfile.filesystem''),
                         (''mcp-browser'', ''Dockerfile.playwright''),
                         (''mcp-git'', ''Dockerfile.git''),
                         (''mcp-memory'', ''Dockerfile.memory'')]
               \<and> \<not> path_exists h (length (calls w2)) (path_join h ''docker'' dockerfile)
               \<longrightarrow> install_server h server_config target_path w
                     = (Inr (False, ''Dockerfile not found: '' @ path_join h ''docker'' dockerfile),
                        w2))
         \<and> (split_first (CHR '':'') img
               \<notin> set [''mcp-filesystem'', ''mcp-browser'', ''mcp-git'', ''mcp-memory'']
             \<longrightarrow> install_server h server_config target_path w
                   = (Inr (False, ''No Dockerfile found for image: '' @ split_first (CHR '':'') img),
                      w2))
         \<and> (split_first (CHR '':'') img
               \<in> set [''mcp-filesystem'', ''mcp-browser'', ''mcp-git'', ''mcp-memory'']
             \<longrightarrow> (\<forall>name. fst (install_server h server_config target_path w)
                           \<noteq> Inr (False, ''No Dockerfile found for image: '' @ name)))"
proof -
  note run = install_local_build [OF assms, of target_path]
  have pairs: "\<forall>dockerfile.
               (split_first (CHR '':'') img, dockerfile)
                 \<in> set [(''mcp-filesystem'', ''Dockerfile.filesystem''),
                         (''mcp-browser'', ''Dockerfile.playwright''),
                         (''mcp-git'', ''Dockerfile.git''),
                         (''mcp-memory'', ''Dockerfile.memory'')]
               \<and> \<not> path_exists h (length (calls w2)) (path_join h ''docker'' dockerfile)
               \<longrightarrow> install_server h server_config target_path w
                     = (Inr (False, ''Dockerfile not found: '' @ path_join h ''docker'' dockerfile),
                        w2)"
  proof (intro allI impI, elim conjE)
    fix dockerfile
    assume "(split_first (CHR '':'') img, dockerfile)
                 \<in> set [(''mcp-filesystem'', ''Dockerfile.filesystem''),
                         (''mcp-browser'', ''Dockerfile.playwright''),
                         (''mcp-git'', ''Dockerfile.git''),
                         (''mcp-memory'', ''Dockerfile.memory'')]"
    hence "dict_get dockerfile_map (split_first (CHR '':'') img) = Some dockerfile"
      by (rule dockerfile_map_pairs)
    moreover assume "\<not> path_exists h (length (calls w2)) (path_join h ''docker'' dockerfile)"
    ultimately show "install_server h server_config target_path w
                     = (Inr (False, ''Dockerfile not found: '' @ path_join h ''docker'' dockerfile),
                        w2)"
      by (simp add: run mapped_image_without_dockerfile)
  qed
  have first: "img = ''mcp-filesystem:latest''
            \<and> \<not> path_exists h (length (calls w2)) (path_join h ''docker'' ''Dockerfile.filesystem'')
          \<longrightarrow> install_server h server_config target_path w
                = (Inr (False, ''Dockerfile not found: ''
                               @ path_join h ''docker'' ''Dockerfile.filesystem''), w2)"
  proof (intro impI, elim conjE)
    assume i: "img = ''mcp-filesystem:latest''"
       and n: "\<not> path_exists h (length (calls w2)) (path_join h ''docker'' ''Dockerfile.filesystem'')"
    have "(split_first (CHR '':'') img, ''Dockerfile.filesystem'')
                 \<in> set [(''mcp-filesystem'', ''Dockerfile.filesystem''),
                         (''mcp-browser'', ''Dockerfile.playwright''),
                         (''mcp-git'', ''Dockerfile.git''),
                         (''mcp-memory'', ''Dockerfile.memory'')]"
      by (simp add: i split_first_def)
    with pairs n show "install_server h server_config target_path w
                = (Inr (False, ''Dockerfile not found: ''
                               @ path_join h ''docker'' ''Dockerfile.filesystem''), w2)"
      by blast
  qed
  have none: "filter starts_container (drop (length (calls w)) (calls w2)) = []"
  proof -
    from get_docker_status_calls [OF assms(4)] obtain ys
      where ys: "calls w1 = calls w @ ys"
        and sub: "set ys \<subseteq> {[''docker'', ''--version''], [''docker'', ''info'']}" by blast
    have c2: "calls w2 = calls w1 @ [[''docker'', ''image'', ''inspect'', img]]"
      using assms(6) by (rule docker_image_exists_calls)
    have "filter starts_container ys = []"
      using sub by (auto simp: filter_empty_conv starts_container_def)
    thus ?thesis by (simp add: c2 ys starts_container_def)
  qed
  have unmapped: "split_first (CHR '':'') img
               \<notin> set [''mcp-filesystem'', ''mcp-browser'', ''mcp-git'', ''mcp-memory'']
             \<longrightarrow> install_server h server_config target_path w
                   = (Inr (False, ''No Dockerfile found for image: '' @ split_first (CHR '':'') img),
                      w2)"
    by (simp only: dockerfile_map_names) (simp add: run unmapped_image_fails)
  have mapped: "split_first (CHR '':'') img
               \<in> set [''mcp-filesystem'', ''mcp-browser'', ''mcp-git'', ''mcp-memory'']
             \<longrightarrow> (\<forall>name. fst (install_server h server_config target_path w)
                           \<noteq> Inr (False, ''No Dockerfile found for image: '' @ name))"
  proof (intro impI allI)
    fix name
    assume "split_first (CHR '':'') img
               \<in> set [''mcp-filesystem'', ''mcp-browser'', ''mcp-git'', ''mcp-memory'']"
    then obtain dockerfile
      where d: "dict_get dockerfile_map (split_first (CHR '':'') img) = Some dockerfile"
      by (simp only: dockerfile_map_names) blast
    obtain r w3 where build: "build_and_run_docker_image h server_config img w2 = (r, w3)"
      by (cases "build_and_run_docker_image h server_config img w2")
    from build_and_run_names_docker [OF d build]
    have "r \<noteq> (False, ''No Dockerfile found for image: '' @ name)"
      by (auto simp: startswith_def)
    thus "fst (install_server h server_config target_path w)
            \<noteq> Inr (False, ''No Dockerfile found for image: '' @ name)"
      by (simp add: run build)
  qed
  from first none pairs unmapped mapped show ?thesis by blast
qed



theorem local_image_without_dockerfile_witness:
  "d_type local_filesystem_image = Some ''docker''
   \<and> d_image local_filesystem_image = Some ''mcp-filesystem:latest''
   \<and> is_local_build ''mcp-filesystem:latest''
   \<and> status (fst (get_docker_status (posix_host docker_run) fresh_world))
   \<and> fst (docker_image_exists (posix_host docker_run) ''mcp-filesystem:latest''
             (snd (get_docker_status (posix_host docker_run) fresh_world))) = False
   \<and> fst (install_server (posix_host docker_run) local_filesystem_image None fresh_world)
        = Inr (False, ''Dockerfile not found: docker/Dockerfile.filesystem'')
   \<and> calls (snd (install_server (posix_host docker_run) local_filesystem_image None fresh_world))
        = [[''docker'', ''--version''], [''docker'', ''info''],
           [''docker'', ''image'', ''inspect'', ''mcp-filesystem:latest'']]
   \<and> d_image time_image = Some ''mcp-time:latest''
   \<and> is_local_build ''mcp-time:latest''
   \<and> fst (docker_image_exists (posix_host docker_run) ''mcp-time:latest''
             (snd (get_docker_status (posix_host docker_run) fresh_world))) = False
   \<and> fst (install_server (posix_host docker_run) time_image None fresh_world)
        = Inr (False, ''No Dockerfile found for image: mcp-time'')"
proof -
  let ?h = "posix_host docker_run"
  let ?w1 = "fresh_world\<lparr>calls := [[''docker'', ''--version''], [''docker'', ''info'']]\<rparr>"
  let ?w2 = "fresh_world\<lparr>calls := [[''docker'', ''--version''], [''docker'', ''info''],
                                      [''docker'', ''image'', ''inspect'', ''mcp-filesystem:latest'']]\<rparr>"
  let ?w2' = "fresh_world\<lparr>calls := [[''docker'', ''--version''], [''docker'', ''info''],
                                       [''docker'', ''image'', ''inspect'', ''mcp-time:latest'']]\<rparr>"
  let ?st = "\<lparr>status = True, message = ''Docker installed and running'',
              details = ''Version: Docker version 24.0.7, Containers: 0'',
              daemon_running = Some True, installed = None\<rparr>"
  have a: "d_type local_filesystem_image = Some ''docker''"
    by (simp add: local_filesystem_image_def)
  have b: "d_image local_filesystem_image = Some ''mcp-filesystem:latest''"
    by (simp add: local_filesystem_image_def)
  have l: "is_local_build ''mcp-filesystem:latest''"
    by (simp add: is_local_build_def startswith_def)
  have c: "get_docker_status ?h fresh_world = (?st, ?w1)"
    by (simp add: get_docker_status_def check_docker_def host_defs docker_run_def Let_def
          first_containing_def contains_def startswith_def py_strip_def is_space_def)
  have d: "status ?st" by simp
  have e: "docker_image_exists ?h ''mcp-filesystem:latest'' ?w1 = (False, ?w2)"
    by (simp add: docker_image_exists_def host_defs docker_run_def)
  have f: "\<not> path_exists ?h (length (calls ?w2)) (path_join ?h ''docker'' ''Dockerfile.filesystem'')"
    by (simp add: posix_host_def)
  have p: "path_join ?h ''docker'' ''Dockerfile.filesystem'' = ''docker/Dockerfile.filesystem''"
    by (simp add: path_join_def sep_def posix_host_def startswith_def)
  note filesystem = local_image_without_dockerfile [OF a b l c d e, of None]
  have one: "install_server ?h local_filesystem_image None fresh_world
               = (Inr (False, ''Dockerfile not found: docker/Dockerfile.filesystem''), ?w2)"
    using filesystem [THEN conjunct1] f p by simp
  have a': "d_type time_image = Some ''docker''"
    by (simp add: time_image_def)
  have b': "d_image time_image = Some ''mcp-time:latest''"
    by (simp add: time_image_def)
  have l': "is_local_build ''mcp-time:latest''"
    by (simp add: is_local_build_def startswith_def)
  have e': "docker_image_exists ?h ''mcp-time:latest'' ?w1 = (False, ?w2')"
    by (simp add: docker_image_exists_def host_defs docker_run_def)
  have n: "split_first (CHR '':'') ''mcp-time:latest'' = ''mcp-time''"
    by (simp add: split_first_def)
  note time = local_image_without_dockerfile [OF a' b' l' c d e', of None]
  have two: "install_server ?h time_image None fresh_world
               = (Inr (False, ''No Dockerfile found for image: mcp-time''), ?w2')"
    using time [THEN conjunct2, THEN conjunct2, THEN conjunct2, THEN conjunct1] n by simp
  from a b l c e b' l' e' show ?thesis by (simp add: one two)
qed

text \<open>
  On a machine with a running Docker engine, no local image and no file at any path, the
  result of installing "mcp-filesystem:latest" is not
  (False, "No Dockerfile found for image: mcp-filesystem").
\<close>

theorem no_dockerfile_message_counterexample:
  "d_type local_filesystem_image = Some ''docker''
   \<and> d_image local_filesystem_image = Some ''mcp-filesystem:latest''
   \<and> status (fst (get_docker_status (posix_host docker_run) fresh_world))
   \<and> fst (docker_image_exists (posix_host docker_run) ''mcp-filesystem:latest''
             (snd (get_docker_status (posix_host docker_run) fresh_world))) = False
   \<and> (\<forall>n p. path_exists (posix_host docker_run) n p = False)
   \<and> fst (install_server (posix_host docker_run) local_filesystem_image None fresh_world)
        \<noteq> Inr (False, ''No Dockerfile found for image: mcp-filesystem'')"
  by (simp add: local_filesystem_image_def get_docker_status_def check_docker_def host_defs
        docker_run_def Let_def first_containing_def contains_def startswith_def py_strip_def
        is_space_def docker_image_exists_def dispatch_defs install_docker_server_impl_def
        install_docker_server_impl_body_def docker_ready_def docker_image_step_def
        is_local_build_def build_and_run_docker_image_def build_local_docker_image_def
        build_local_docker_image_body_def dockerfile_map_def split_first_def path_join_def sep_def
        after_image_step_def get_or_def)

text \<open>
  C6.  No run of \<open>_install_docker_server_impl\<close> reaches the statements that read
  \<open>pull_cmd\<close> with the variable unassigned.  For an image that matches the local-build
  convention both arms of the branch return out of the function; the statements after the
  branch are reached on the pull path only, where \<open>pull_cmd\<close> and \<open>result\<close> have
  been assigned.
\<close>

theorem pull_cmd_is_bound:
  "\<not> reaches_pull_cmd_unbound h server_config w
   \<and> (is_local_build img
        \<longrightarrow> (\<exists>r w'. docker_image_step h server_config img w = (Inr (Returned r), w')))
   \<and> (\<forall>cmd res w'. docker_image_step h server_config img w = (Inr (Falls_through cmd res), w')
        \<longrightarrow> \<not> is_local_build img \<and> cmd = Some [''docker'', ''pull'', img] \<and> res \<noteq> None)"
  using pull_cmd_never_unbound local_build_returns falls_through_is_bound by blast

theorem pull_cmd_is_bound_witness:
  "is_local_build ''mcp-filesystem:latest''
   \<and> (\<exists>r w'. docker_image_step (posix_host docker_run) local_filesystem_image
                ''mcp-filesystem:latest'' fresh_world = (Inr (Returned r), w'))
   \<and> \<not> reaches_pull_cmd_unbound (posix_host docker_run) local_filesystem_image fresh_world
   \<and> docker_image_step (posix_host all_ok) browser_server ''mcr.microsoft.com/playwright/mcp''
         fresh_world
       = (Inr (Falls_through (Some [''docker'', ''pull'', ''mcr.microsoft.com/playwright/mcp''])
                 (Some \<lparr>t_returncode = 0, t_stdout = '''', t_stderr = ''''\<rparr>)),
          fresh_world\<lparr>calls := [[''docker'', ''pull'', ''mcr.microsoft.com/playwright/mcp'']]\<rparr>)
   \<and> \<not> is_local_build ''mcr.microsoft.com/playwright/mcp''"
proof -
  have a: "is_local_build ''mcp-filesystem:latest''"
    by (simp add: is_local_build_def startswith_def)
  have b: "docker_image_step (posix_host all_ok) browser_server ''mcr.microsoft.com/playwright/mcp''
             fresh_world
           = (Inr (Falls_through (Some [''docker'', ''pull'', ''mcr.microsoft.com/playwright/mcp''])
                     (Some \<lparr>t_returncode = 0, t_stdout = '''', t_stderr = ''''\<rparr>)),
              fresh_world\<lparr>calls := [[''docker'', ''pull'', ''mcr.microsoft.com/playwright/mcp'']]\<rparr>)"
    by (simp add: docker_image_step_def is_local_build_def startswith_def host_defs all_ok_def
          Let_def)
  from pull_cmd_is_bound [of "posix_host docker_run" local_filesystem_image fresh_world
                             "''mcp-filesystem:latest''"] a
  have c: "(\<exists>r w'. docker_image_step (posix_host docker_run) local_filesystem_image
                ''mcp-filesystem:latest'' fresh_world = (Inr (Returned r), w'))
           \<and> \<not> reaches_pull_cmd_unbound (posix_host docker_run) local_filesystem_image fresh_world"
    by blast
  from pull_cmd_is_bound [of "posix_host all_ok" browser_server fresh_world
                             "''mcr.microsoft.com/playwright/mcp''"] b
  have d: "\<not> is_local_build ''mcr.microsoft.com/playwright/mcp''"
    by blast
  from a b c d show ?thesis by simp
qed

text \<open>
  There is no descriptor with a local-build image, no machine and no session for which the
  run reaches the use of \<open>pull_cmd\<close> with the variable unassigned.
\<close>

theorem local_build_unbound_counterexample:
  "\<not> (\<exists>h server_config w.
          is_local_build (get_or (d_image server_config) '''')
          \<and> reaches_pull_cmd_unbound h server_config w)"
  using pull_cmd_never_unbound by blast

subsection \<open>The npm backend\<close>

lemma subprocess_run_writer_calls:
  "subprocess_run h argv w = (r, w') \<Longrightarrow> writer_calls w' = writer_calls w"
  by (auto simp: subprocess_run_def)

lemma subprocess_run_text_writer_calls:
  "subprocess_run_text h argv w = (r, w') \<Longrightarrow> writer_calls w' = writer_calls w"
  by (auto simp: subprocess_run_text_def subprocess_run_def split: sum.splits)

lemma save_extension_config_keeps:
  "save_extension_config h extension config w = (r, w') \<Longrightarrow>
     writer_calls w' = writer_calls w \<and> calls w' = calls w"
  by (auto simp: save_extension_config_def mkdir_def split: option.splits prod.splits sum.splits)

lemma add_server_to_extension_invoked:
  "add_server_to_extension h extension server_config w = (r, w') \<Longrightarrow>
     writer_calls w' = writer_calls w @ [(extension, server_config)] \<and> calls w' = calls w"
  unfolding add_server_to_extension_def Let_def
  by (auto split: sum.splits if_splits dest!: save_extension_config_keeps
           simp: apfst_def map_prod_def split: prod.splits)

lemma add_server_to_extension_snd:
  "writer_calls (snd (add_server_to_extension h extension server_config w))
     = writer_calls w @ [(extension, server_config)]
   \<and> calls (snd (add_server_to_extension h extension server_config w)) = calls w"
  using add_server_to_extension_invoked [of h extension server_config w]
  by (cases "add_server_to_extension h extension server_config w") simp

lemma configure_npm_server_in_vscode:
  assumes "d_type server_config = Some ''npm''" and "d_package server_config = Some package"
      and "package \<noteq> ''''"
  shows "writer_calls (configure_server_in_vscode h server_config w)
           = writer_calls w
             @ map (\<lambda>extension. (extension,
                      npm_vscode_config server_config (get_or (d_name server_config) ''Unknown'')
                        package))
                 [''cline'', ''roo'', ''claude_desktop'']
         \<and> calls (configure_server_in_vscode h server_config w) = calls w"
  using assms
  by (simp add: configure_server_in_vscode_def get_or_def Let_def add_server_to_extension_snd)

lemma auto_install_nodejs_writer_calls:
  "auto_install_nodejs h w = (r, w') \<Longrightarrow> writer_calls w' = writer_calls w"
  by (auto simp: auto_install_nodejs_def split: if_splits prod.splits sum.splits
           dest: subprocess_run_text_writer_calls)

lemma npm_probe_writer_calls:
  "npm_probe h w = (r, w') \<Longrightarrow> writer_calls w' = writer_calls w"
  unfolding npm_probe_def
  by (auto split: prod.splits sum.splits exn.splits if_splits
           dest!: subprocess_run_writer_calls auto_install_nodejs_writer_calls)

text \<open>
  C7.  Take an npm descriptor with the name "Filesystem MCP Server" and the package
  "@modelcontextprotocol/server-filesystem", and let the npm probe succeed.  The backend
  then runs exactly one more subprocess, \<open>npm install -g @modelcontextprotocol/server-filesystem\<close>.
  If that subprocess exits with code 0, the result is
  (True, "Successfully installed Filesystem MCP Server") and the IDE writer is invoked
  exactly three times, once for each of "cline", "roo" and "claude\_desktop", with the entry
  built from the descriptor.  This holds on every machine and in every session, whatever
  the settings files hold and whether or not they can be written: nothing the writer does
  changes the result.
\<close>

theorem npm_install_filesystem_server:
  assumes "d_name server_config = Some ''Filesystem MCP Server''"
      and "d_type server_config = Some ''npm''"
      and "d_package server_config = Some ''@modelcontextprotocol/server-filesystem''"
      and "npm_probe h w = (None, w1)"
  shows "calls (snd (install_server h server_config target_path w))
           = calls w1 @ [[''npm'', ''install'', ''-g'', ''@modelcontextprotocol/server-filesystem'']]
         \<and> (\<forall>result w2.
               subprocess_run_text h
                 [''npm'', ''install'', ''-g'', ''@modelcontextprotocol/server-filesystem''] w1
                 = (Inr result, w2)
               \<and> t_returncode result = 0
               \<longrightarrow> fst (install_server h server_config target_path w)
                     = Inr (True, ''Successfully installed Filesystem MCP Server'')
                   \<and> writer_calls (snd (install_server h server_config target_path w))
                     = writer_calls w
                       @ map (\<lambda>extension.
                                (extension,
                                 npm_vscode_config server_config ''Filesystem MCP Server''
                                   ''@modelcontextprotocol/server-filesystem''))
                           [''cline'', ''roo'', ''claude_desktop''])"
proof -
  let ?pkg = "''@modelcontextprotocol/server-filesystem''"
  let ?cmd = "[''npm'', ''install'', ''-g'', ?pkg]"
  obtain a w2 where run: "subprocess_run_text h ?cmd w1 = (a, w2)"
    by (cases "subprocess_run_text h ?cmd w1")
  have c2: "calls w2 = calls w1 @ [?cmd]"
    using run by (rule subprocess_run_text_calls)
  have wc1: "writer_calls w1 = writer_calls w"
    using assms(4) by (rule npm_probe_writer_calls)
  have wc2: "writer_calls w2 = writer_calls w1"
    using run by (rule subprocess_run_text_writer_calls)
  have conf: "writer_calls (configure_server_in_vscode h server_config w2)
                = writer_calls w2
                  @ map (\<lambda>extension.
                           (extension, npm_vscode_config server_config ''Filesystem MCP Server'' ?pkg))
                      [''cline'', ''roo'', ''claude_desktop'']
              \<and> calls (configure_server_in_vscode h server_config w2) = calls w2"
    using configure_npm_server_in_vscode [OF assms(2) assms(3), of h w2] assms(1)
    by (simp add: get_or_def)
  have server: "install_server h server_config target_path w
                  = apfst Inr (install_npm_server h server_config target_path w)"
    using assms(2)
    by (simp add: install_server_def install_server_using_def install_server_with_def
          get_or_def Let_def catch_apfst_Inr)
  have body: "install_npm_server h server_config target_path w
                = (case a of
                     Inl install_error \<Rightarrow>
                       ((False, ''Installation error: '' @ str_exn install_error), w2)
                   | Inr result \<Rightarrow>
                       (if t_returncode result = 0
                        then ((True, ''Successfully installed Filesystem MCP Server''),
                              configure_server_in_vscode h server_config w2)
                        else ((False, ''npm install failed (exit code ''
                                      @ str_int (t_returncode result) @ ''): '' @ t_stderr result),
                              w2)))"
    using assms(1,3,4) run
    by (simp add: install_npm_server_def install_npm_body_def get_or_def Let_def
             split: sum.splits)
  have calls: "calls (snd (install_server h server_config target_path w)) = calls w1 @ [?cmd]"
    using conf c2 by (simp add: server body split: sum.splits)
  have ok: "\<forall>result w2'. subprocess_run_text h ?cmd w1 = (Inr result, w2') \<and> t_returncode result = 0
              \<longrightarrow> fst (install_server h server_config target_path w)
                    = Inr (True, ''Successfully installed Filesystem MCP Server'')
                  \<and> writer_calls (snd (install_server h server_config target_path w))
                    = writer_calls w
                      @ map (\<lambda>extension.
                               (extension,
                                npm_vscode_config server_config ''Filesystem MCP Server'' ?pkg))
                          [''cline'', ''roo'', ''claude_desktop'']"
    using conf wc1 wc2 run by (auto simp: server body)
  from calls ok show ?thesis by blast
qed


theorem npm_install_filesystem_server_witness:
  "d_name filesystem_server = Some ''Filesystem MCP Server''
   \<and> d_type filesystem_server = Some ''npm''
   \<and> d_package filesystem_server = Some ''@modelcontextprotocol/server-filesystem''
   \<and> fst (npm_probe locked_host damaged_world) = None
   \<and> fst (add_server_to_extension locked_host ''cline'' filesystem_entry damaged_world)
        = Inl (Exception ''list indices must be integers or slices, not str'')
   \<and> fst (add_server_to_extension locked_host ''roo'' filesystem_entry damaged_world) = Inr False
   \<and> fst (install_server locked_host filesystem_server None damaged_world)
        = Inr (True, ''Successfully installed Filesystem MCP Server'')
   \<and> calls (snd (install_server locked_host filesystem_server None damaged_world))
        = [[''npm'', ''--version''],
           [''npm'', ''install'', ''-g'', ''@modelcontextprotocol/server-filesystem'']]
   \<and> writer_calls (snd (install_server locked_host filesystem_server None damaged_world))
        = [(''cline'', filesystem_entry), (''roo'', filesystem_entry),
           (''claude_desktop'', filesystem_entry)]"
proof -
  let ?w1 = "damaged_world\<lparr>calls := [[''npm'', ''--version'']]\<rparr>"
  let ?cmd = "[''npm'', ''install'', ''-g'', ''@modelcontextprotocol/server-filesystem'']"
  let ?w2 = "damaged_world\<lparr>calls := [[''npm'', ''--version''], ?cmd]\<rparr>"
  let ?result = "\<lparr>t_returncode = 0, t_stdout = ''added 1 package'', t_stderr = ''''\<rparr>"
  have a: "d_name filesystem_server = Some ''Filesystem MCP Server''"
    and b: "d_type filesystem_server = Some ''npm''"
    and c: "d_package filesystem_server = Some ''@modelcontextprotocol/server-filesystem''"
    by (simp_all add: filesystem_server_def)
  have d: "npm_probe locked_host damaged_world = (None, ?w1)"
    by (simp add: npm_probe_def locked_host_def damaged_world_def host_defs npm_run_def)
  have e: "subprocess_run_text locked_host ?cmd ?w1 = (Inr ?result, ?w2)"
    by (simp add: locked_host_def damaged_world_def host_defs npm_run_def)
  have f: "npm_vscode_config filesystem_server ''Filesystem MCP Server''
             ''@modelcontextprotocol/server-filesystem'' = filesystem_entry"
    by (simp add: npm_vscode_config_def filesystem_server_def filesystem_entry_def
          no_configuration_def get_or_def)
  have g: "fst (add_server_to_extension locked_host ''cline'' filesystem_entry damaged_world)
             = Inl (Exception ''list indices must be integers or slices, not str'')"
    by (simp add: writer_defs locked_host_def damaged_world_def cline_settings_def host_defs
          filesystem_entry_def Let_def)
  have i: "fst (add_server_to_extension locked_host ''roo'' filesystem_entry damaged_world)
             = Inr False"
    by (simp add: writer_defs locked_host_def damaged_world_def cline_settings_def host_defs
          filesystem_entry_def Let_def)
  have w0: "writer_calls damaged_world = []" "calls ?w1 = [[''npm'', ''--version'']]"
    by (simp_all add: damaged_world_def fresh_world_def)
  from npm_install_filesystem_server [OF a b c d, of None] e
  have "calls (snd (install_server locked_host filesystem_server None damaged_world))
          = calls ?w1 @ [?cmd]
        \<and> fst (install_server locked_host filesystem_server None damaged_world)
          = Inr (True, ''Successfully installed Filesystem MCP Server'')
        \<and> writer_calls (snd (install_server locked_host filesystem_server None damaged_world))
          = writer_calls damaged_world
            @ map (\<lambda>extension.
                     (extension,
                      npm_vscode_config filesystem_server ''Filesystem MCP Server''
                        ''@modelcontextprotocol/server-filesystem''))
                [''cline'', ''roo'', ''claude_desktop'']"
    by simp
  with a b c d f g i w0 show ?thesis by simp
qed

subsection \<open>The Node.js probe\<close>

lemma node_probe_parsing_failed:
  assumes "subprocess_run_text h [node_cmd, ''--version''] w = (Inr result, w1)"
      and "t_returncode result = 0"
      and "major_version_of (py_strip (t_stdout result)) = None"
  shows "node_probe h node_cmd w
           = (Some (parsing_failed node_cmd (py_strip (t_stdout result))), w1)"
  using assms by (simp add: node_probe_def Let_def)

text \<open>
  C8.  When \<open>node_cmd --version\<close> exits with code 0 and the major version cannot be read
  from its output, the probe of that command succeeds: the status is True and the message
  is "Node.js <output> detected (version parsing failed)".  This is the result of
  \<open>check_nodejs\<close> when the command is \<open>node\<close>, the first one tried, and when it is
  \<open>nodejs\<close> and the probe of \<open>node\<close> gave nothing.
\<close>

theorem unparsable_node_version:
  assumes "subprocess_run_text h [node_cmd, ''--version''] w = (Inr result, w1)"
      and "t_returncode result = 0"
      and "major_version_of (py_strip (t_stdout result)) = None"
  shows "node_probe h node_cmd w
           = (Some (parsing_failed node_cmd (py_strip (t_stdout result))), w1)
         \<and> status (parsing_failed node_cmd (py_strip (t_stdout result)))
         \<and> message (parsing_failed node_cmd (py_strip (t_stdout result)))
             = ''Node.js '' @ py_strip (t_stdout result) @ '' detected (version parsing failed)''
         \<and> (node_cmd = ''node''
              \<longrightarrow> check_nodejs h w
                    = (parsing_failed ''node'' (py_strip (t_stdout result)), w1))
         \<and> (\<forall>w0. node_cmd = ''nodejs'' \<and> node_probe h ''node'' w0 = (None, w)
              \<longrightarrow> check_nodejs h w0
                    = (parsing_failed ''nodejs'' (py_strip (t_stdout result)), w1))"
proof -
  have probe: "node_probe h node_cmd w
                 = (Some (parsing_failed node_cmd (py_strip (t_stdout result))), w1)"
    using assms by (rule node_probe_parsing_failed)
  have "status (parsing_failed node_cmd (py_strip (t_stdout result)))"
    by (simp add: parsing_failed_def plain_result_def)
  moreover have "message (parsing_failed node_cmd (py_strip (t_stdout result)))
             = ''Node.js '' @ py_strip (t_stdout result) @ '' detected (version parsing failed)''"
    by (simp add: parsing_failed_def plain_result_def)
  moreover have "node_cmd = ''node''
              \<longrightarrow> check_nodejs h w
                    = (parsing_failed ''node'' (py_strip (t_stdout result)), w1)"
    using probe by (auto simp: check_nodejs_def)
  moreover have "\<forall>w0. node_cmd = ''nodejs'' \<and> node_probe h ''node'' w0 = (None, w)
              \<longrightarrow> check_nodejs h w0
                    = (parsing_failed ''nodejs'' (py_strip (t_stdout result)), w1)"
    using probe by (auto simp: check_nodejs_def)
  ultimately show ?thesis using probe by blast
qed

theorem unparsable_node_version_witness:
  "subprocess_run_text (posix_host node_run) [''node'', ''--version''] fresh_world
     = (Inr \<lparr>t_returncode = 0, t_stdout = ''Node v18.2.0'', t_stderr = ''''\<rparr>,
        fresh_world\<lparr>calls := [[''node'', ''--version'']]\<rparr>)
   \<and> major_version_of (py_strip ''Node v18.2.0'') = None
   \<and> check_nodejs (posix_host node_run) fresh_world
       = (\<lparr>status = True,
           message = ''Node.js Node v18.2.0 detected (version parsing failed)'',
           details = ''Command: node, Raw version: Node v18.2.0'',
           daemon_running = None, installed = None\<rparr>,
          fresh_world\<lparr>calls := [[''node'', ''--version'']]\<rparr>)
   \<and> node_probe (posix_host nodejs_run) ''node'' fresh_world
       = (None, fresh_world\<lparr>calls := [[''node'', ''--version'']]\<rparr>)
   \<and> major_version_of (py_strip ''v20-nightly'') = None
   \<and> check_nodejs (posix_host nodejs_run) fresh_world
       = (\<lparr>status = True,
           message = ''Node.js v20-nightly detected (version parsing failed)'',
           details = ''Command: nodejs, Raw version: v20-nightly'',
           daemon_running = None, installed = None\<rparr>,
          fresh_world\<lparr>calls := [[''node'', ''--version''], [''nodejs'', ''--version'']]\<rparr>)"
proof -
  let ?result = "\<lparr>t_returncode = 0, t_stdout = ''Node v18.2.0'', t_stderr = ''''\<rparr>"
  let ?w1 = "fresh_world\<lparr>calls := [[''node'', ''--version'']]\<rparr>"
  have a: "subprocess_run_text (posix_host node_run) [''node'', ''--version''] fresh_world
             = (Inr ?result, ?w1)"
    by (simp add: host_defs node_run_def)
  have b: "t_returncode ?result = 0" by simp
  have s: "py_strip ''Node v18.2.0'' = ''Node v18.2.0''"
    by (simp add: py_strip_def is_space_def)
  have c: "major_version_of (py_strip (t_stdout ?result)) = None"
    by (simp add: s major_version_of_def lstrip_char_def split_first_def py_int_def py_strip_def
          is_space_def is_digit_def Let_def)
  from unparsable_node_version [OF a b c]
  have first: "check_nodejs (posix_host node_run) fresh_world
          = (parsing_failed ''node'' (py_strip (t_stdout ?result)), ?w1)"
    by blast
  let ?result' = "\<lparr>t_returncode = 0, t_stdout = ''v20-nightly'', t_stderr = ''''\<rparr>"
  let ?w2 = "fresh_world\<lparr>calls := [[''node'', ''--version''], [''nodejs'', ''--version'']]\<rparr>"
  have n: "node_probe (posix_host nodejs_run) ''node'' fresh_world = (None, ?w1)"
    by (simp add: node_probe_def host_defs nodejs_run_def)
  have a': "subprocess_run_text (posix_host nodejs_run) [''nodejs'', ''--version''] ?w1
             = (Inr ?result', ?w2)"
    by (simp add: host_defs nodejs_run_def)
  have b': "t_returncode ?result' = 0" by simp
  have s': "py_strip ''v20-nightly'' = ''v20-nightly''"
    by (simp add: py_strip_def is_space_def)
  have c': "major_version_of (py_strip (t_stdout ?result')) = None"
    by (simp add: s' major_version_of_def lstrip_char_def split_first_def py_int_def py_strip_def
          is_space_def is_digit_def Let_def)
  from unparsable_node_version [OF a' b' c'] n
  have second: "check_nodejs (posix_host nodejs_run) fresh_world
          = (parsing_failed ''nodejs'' (py_strip (t_stdout ?result')), ?w2)"
    by blast
  from a c s first n c' s' second show ?thesis
    by (simp add: parsing_failed_def plain_result_def)
qed

subsection \<open>Discovery\<close>

lemma discover_servers_with_entries:
  "local_servers catalog = Inr local \<Longrightarrow>
     discover_servers_with github npm official catalog
       = Inr [(''local'', local),
              (''github'', case github of Inl e \<Rightarrow> [] | Inr servers \<Rightarrow> servers),
              (''npm'', case npm of Inl e \<Rightarrow> [] | Inr servers \<Rightarrow> servers),
              (''official'', case official of Inl e \<Rightarrow> [] | Inr servers \<Rightarrow> servers)]"
  by (simp add: discover_servers_with_def Let_def split: sum.splits)

lemma collect_stops_at_failure:
  "isl (f x) \<Longrightarrow> list_all (\<lambda>y. \<not> isl (f y)) xs \<Longrightarrow>
     collect f (xs @ x # ys) = map (\<lambda>y. projr (f y)) xs"
  by (induction xs) (auto split: sum.splits)

text \<open>
  C9.  When the catalog read at start-up is a dictionary whose entry "servers" is absent or
  a dictionary, \<open>discover_servers\<close> returns a dictionary with the four keys "local",
  "github", "npm" and "official", in that order, whatever the three registries answer and
  whatever the three methods it calls do (a method that raises leaves the empty list under
  its key).  For each registry:

  \<^item> when the request raises, the status is not 200 or (GitHub, npm) the body cannot be
    decoded, the list of that source is empty;
  \<^item> when the conversion of an item raises (GitHub, npm), the loop ends there and the list
    holds the servers converted before it;
  \<^item> the list depends on the answer to the request of that source only (and, for the
    README, on the iteration order of the set of names): two machines that agree on it
    give the same list, whatever the other registries answer.
\<close>

theorem discover_servers_degrades:
  assumes "local_servers catalog = Inr local"
  shows "discover_servers h catalog
           = Inr [(''local'', local),
                  (''github'', discover_github_servers h),
                  (''npm'', discover_npm_servers h),
                  (''official'', discover_official_servers h)]
         \<and> discover_servers_with github npm official catalog
           = Inr [(''local'', local),
                  (''github'', case github of Inl e \<Rightarrow> [] | Inr servers \<Rightarrow> servers),
                  (''npm'', case npm of Inl e \<Rightarrow> [] | Inr servers \<Rightarrow> servers),
                  (''official'', case official of Inl e \<Rightarrow> [] | Inr servers \<Rightarrow> servers)]
         \<and> ((\<forall>r. http_get h ''https://api.github.com/search/repositories'' \<noteq> Inr r
                   \<or> status_code r \<noteq> 200 \<or> isl (body_json r))
             \<longrightarrow> discover_github_servers h = [])
         \<and> ((\<forall>r. http_get h ''https://registry.npmjs.org/-/v1/search'' \<noteq> Inr r
                   \<or> status_code r \<noteq> 200 \<or> isl (body_json r))
             \<longrightarrow> discover_npm_servers h = [])
         \<and> ((\<forall>r. http_get h ''https://raw.githubusercontent.com/modelcontextprotocol/servers/main/README.md''
                     \<noteq> Inr r
                   \<or> status_code r \<noteq> 200)
             \<longrightarrow> discover_official_servers h = [])
         \<and> (\<forall>r data items xs x ys.
               http_get h ''https://api.github.com/search/repositories'' = Inr r
               \<and> status_code r = 200 \<and> body_json r = Inr data
               \<and> json_get data ''items'' (JArr []) = Inr items
               \<and> iterate items = Inr (xs @ x # ys)
               \<and> list_all (\<lambda>y. \<not> isl (github_server y)) xs \<and> isl (github_server x)
               \<longrightarrow> discover_github_servers h = map (\<lambda>y. projr (github_server y)) xs)
         \<and> (\<forall>r data objects xs x ys.
               http_get h ''https://registry.npmjs.org/-/v1/search'' = Inr r
               \<and> status_code r = 200 \<and> body_json r = Inr data
               \<and> json_get data ''objects'' (JArr []) = Inr objects
               \<and> iterate objects = Inr (xs @ x # ys)
               \<and> list_all (\<lambda>y. \<not> isl (npm_server y)) xs \<and> isl (npm_server x)
               \<longrightarrow> discover_npm_servers h = map (\<lambda>y. projr (npm_server y)) xs)
         \<and> (\<forall>h'. http_get h' ''https://api.github.com/search/repositories''
                     = http_get h ''https://api.github.com/search/repositories''
                \<longrightarrow> discover_github_servers h' = discover_github_servers h)
         \<and> (\<forall>h'. http_get h' ''https://registry.npmjs.org/-/v1/search''
                     = http_get h ''https://registry.npmjs.org/-/v1/search''
                \<longrightarrow> discover_npm_servers h' = discover_npm_servers h)
         \<and> (\<forall>h'. http_get h' ''https://raw.githubusercontent.com/modelcontextprotocol/servers/main/README.md''
                     = http_get h ''https://raw.githubusercontent.com/modelcontextprotocol/servers/main/README.md''
                   \<and> set_order h' = set_order h
                \<longrightarrow> discover_official_servers h' = discover_official_servers h)"
proof (intro conjI allI impI)
  show "discover_servers h catalog
           = Inr [(''local'', local),
                  (''github'', discover_github_servers h),
                  (''npm'', discover_npm_servers h),
                  (''official'', discover_official_servers h)]"
    using assms by (simp add: discover_servers_def discover_servers_with_entries)
  show "discover_servers_with github npm official catalog
           = Inr [(''local'', local),
                  (''github'', case github of Inl e \<Rightarrow> [] | Inr servers \<Rightarrow> servers),
                  (''npm'', case npm of Inl e \<Rightarrow> [] | Inr servers \<Rightarrow> servers),
                  (''official'', case official of Inl e \<Rightarrow> [] | Inr servers \<Rightarrow> servers)]"
    using assms by (rule discover_servers_with_entries)
next
  assume "\<forall>r. http_get h ''https://api.github.com/search/repositories'' \<noteq> Inr r
               \<or> status_code r \<noteq> 200 \<or> isl (body_json r)"
  thus "discover_github_servers h = []"
    by (auto simp: discover_github_servers_def split: sum.splits)
next
  assume "\<forall>r. http_get h ''https://registry.npmjs.org/-/v1/search'' \<noteq> Inr r
               \<or> status_code r \<noteq> 200 \<or> isl (body_json r)"
  thus "discover_npm_servers h = []"
    by (auto simp: discover_npm_servers_def split: sum.splits)
next
  assume "\<forall>r. http_get h ''https://raw.githubusercontent.com/modelcontextprotocol/servers/main/README.md''
                 \<noteq> Inr r
               \<or> status_code r \<noteq> 200"
  thus "discover_official_servers h = []"
    by (auto simp: discover_official_servers_def split: sum.splits)
next
  fix r data items xs x ys
  assume "http_get h ''https://api.github.com/search/repositories'' = Inr r
          \<and> status_code r = 200 \<and> body_json r = Inr data
          \<and> json_get data ''items'' (JArr []) = Inr items
          \<and> iterate items = Inr (xs @ x # ys)
          \<and> list_all (\<lambda>y. \<not> isl (github_server y)) xs \<and> isl (github_server x)"
  thus "discover_github_servers h = map (\<lambda>y. projr (github_server y)) xs"
    by (simp add: discover_github_servers_def collect_stops_at_failure)
next
  fix r data objects xs x ys
  assume "http_get h ''https://registry.npmjs.org/-/v1/search'' = Inr r
          \<and> status_code r = 200 \<and> body_json r = Inr data
          \<and> json_get data ''objects'' (JArr []) = Inr objects
          \<and> iterate objects = Inr (xs @ x # ys)
          \<and> list_all (\<lambda>y. \<not> isl (npm_server y)) xs \<and> isl (npm_server x)"
  thus "discover_npm_servers h = map (\<lambda>y. projr (npm_server y)) xs"
    by (simp add: discover_npm_servers_def collect_stops_at_failure)
next
  fix h' :: host
  assume "http_get h' ''https://api.github.com/search/repositories''
            = http_get h ''https://api.github.com/search/repositories''"
  thus "discover_github_servers h' = discover_github_servers h"
    by (simp add: discover_github_servers_def)
next
  fix h' :: host
  assume "http_get h' ''https://registry.npmjs.org/-/v1/search''
            = http_get h ''https://registry.npmjs.org/-/v1/search''"
  thus "discover_npm_servers h' = discover_npm_servers h"
    by (simp add: discover_npm_servers_def)
next
  fix h' :: host
  assume "http_get h' ''https://raw.githubusercontent.com/modelcontextprotocol/servers/main/README.md''
            = http_get h ''https://raw.githubusercontent.com/modelcontextprotocol/servers/main/README.md''
          \<and> set_order h' = set_order h"
  thus "discover_official_servers h' = discover_official_servers h"
    by (simp add: discover_official_servers_def split: sum.splits)
qed

theorem discover_servers_degrades_witness:
  "local_servers default_catalog
     = Inr [JObj [(''name'', JStr ''Filesystem MCP Server''), (''type'', JStr ''npm''),
                  (''package'', JStr ''@modelcontextprotocol/server-filesystem'')]]
   \<and> http_get mixed_host ''https://api.github.com/search/repositories''
       = Inl (Exception ''Connection refused'')
   \<and> discover_servers mixed_host default_catalog
       = Inr [(''local'', [JObj [(''name'', JStr ''Filesystem MCP Server''), (''type'', JStr ''npm''),
                               (''package'', JStr ''@modelcontextprotocol/server-filesystem'')]]),
              (''github'', []),
              (''npm'', [JObj [(''name'', JStr ''mcp-server-time''),
                             (''description'', JStr ''No description''),
                             (''type'', JStr ''npm''),
                             (''package'', JStr ''mcp-server-time''),
                             (''version'', JStr ''1.0.0''),
                             (''category'', JStr ''npm''),
                             (''source'', JStr ''npm'')]]),
              (''official'', [])]
   \<and> isl (github_server (JObj []))
   \<and> discover_github_servers half_host
       = [JObj [(''name'', JStr ''mcp-server-demo''),
                (''description'', JStr ''No description''),
                (''type'', JStr ''git''),
                (''repository'', JStr ''https://github.com/demo/mcp-server-demo.git''),
                (''category'', JStr ''community''),
                (''stars'', JNum 7),
                (''language'', JStr ''Python''),
                (''source'', JStr ''github'')]]"
proof -
  let ?local = "[JObj [(''name'', JStr ''Filesystem MCP Server''), (''type'', JStr ''npm''),
                       (''package'', JStr ''@modelcontextprotocol/server-filesystem'')]]"
  let ?demo = "JObj [(''name'', JStr ''mcp-server-demo''),
                     (''description'', JStr ''No description''),
                     (''type'', JStr ''git''),
                     (''repository'', JStr ''https://github.com/demo/mcp-server-demo.git''),
                     (''category'', JStr ''community''),
                     (''stars'', JNum 7),
                     (''language'', JStr ''Python''),
                     (''source'', JStr ''github'')]"
  let ?answer = "\<lparr>status_code = 200, body_text = ''{...}'',
                  body_json = Inr (JObj [(''items'', JArr [demo_repo, JObj []])])\<rparr>"
  have a: "local_servers default_catalog = Inr ?local"
    by (simp add: local_servers_def default_catalog_def json_get_def get_or_def)
  have g: "http_get mixed_host ''https://api.github.com/search/repositories''
             = Inl (Exception ''Connection refused'')"
    by (simp add: mixed_host_def posix_host_def)
  have o: "http_get mixed_host
             ''https://raw.githubusercontent.com/modelcontextprotocol/servers/main/README.md''
             = Inr \<lparr>status_code = 404, body_text = ''404: Not Found'',
                    body_json = Inl (ValueError ''Expecting value'')\<rparr>"
    by (simp add: mixed_host_def posix_host_def)
  have n: "discover_npm_servers mixed_host
             = [JObj [(''name'', JStr ''mcp-server-time''),
                      (''description'', JStr ''No description''),
                      (''type'', JStr ''npm''),
                      (''package'', JStr ''mcp-server-time''),
                      (''version'', JStr ''1.0.0''),
                      (''category'', JStr ''npm''),
                      (''source'', JStr ''npm'')]]"
    by (simp add: discover_npm_servers_def mixed_host_def posix_host_def time_package_def
          json_get_def iterate_def npm_server_def get_or_def)
  note degrades = discover_servers_degrades [OF a, of mixed_host]
  have all: "discover_servers mixed_host default_catalog
          = Inr [(''local'', ?local),
                 (''github'', discover_github_servers mixed_host),
                 (''npm'', discover_npm_servers mixed_host),
                 (''official'', discover_official_servers mixed_host)]"
    using degrades by (rule conjunct1)
  have github: "discover_github_servers mixed_host = []"
    using degrades [THEN conjunct2, THEN conjunct2, THEN conjunct1] g by simp
  have official: "discover_official_servers mixed_host = []"
    using degrades [THEN conjunct2, THEN conjunct2, THEN conjunct2, THEN conjunct2, THEN conjunct1] o
    by simp
  have bad: "isl (github_server (JObj []))"
    by (simp add: github_server_def subscript_def)
  have good: "github_server demo_repo = Inr ?demo"
    by (simp add: github_server_def subscript_def demo_repo_def truthy_def)
  have h1: "http_get half_host ''https://api.github.com/search/repositories'' = Inr ?answer"
    by (simp add: half_host_def posix_host_def)
  have h2: "json_get (JObj [(''items'', JArr [demo_repo, JObj []])]) ''items'' (JArr [])
              = Inr (JArr [demo_repo, JObj []])"
    by (simp add: json_get_def get_or_def)
  have h3: "iterate (JArr [demo_repo, JObj []]) = Inr ([demo_repo] @ JObj [] # [])"
    by (simp add: iterate_def)
  have h4: "list_all (\<lambda>y. \<not> isl (github_server y)) [demo_repo]"
    by (simp add: good)
  note partial = discover_servers_degrades [OF a, of half_host,
                   THEN conjunct2, THEN conjunct2, THEN conjunct2, THEN conjunct2, THEN conjunct2,
                   THEN conjunct1, rule_format,
                   of ?answer "JObj [(''items'', JArr [demo_repo, JObj []])]"
                      "JArr [demo_repo, JObj []]" "[demo_repo]" "JObj []" "[]"]
  have half: "discover_github_servers half_host = [?demo]"
    using partial h1 h2 h3 h4 bad by (simp add: good)
  from a g bad show ?thesis by (simp add: all github official n half)
qed

text \<open>
  \<open>discover_servers\<close> raises when config/servers.json holds a list, or a dictionary with
  null under "servers": the dictionary literal that reads the catalog stands outside every
  try.  And an exception in the middle of the GitHub loop (an item without the key "name")
  leaves the repository converted before it in the list, which is then not empty.
\<close>

theorem discover_servers_counterexample:
  "discover_servers mixed_host (JArr [])
     = Inl (Exception (quoted ''list'' @ '' object has no attribute '' @ quoted ''get''))
   \<and> discover_servers mixed_host (JObj [(''servers'', JNull)])
       = Inl (Exception (quoted ''NoneType'' @ '' object has no attribute '' @ quoted ''values''))
   \<and> isl (github_server (JObj []))
   \<and> discover_servers half_host default_catalog
       = Inr [(''local'', [JObj [(''name'', JStr ''Filesystem MCP Server''), (''type'', JStr ''npm''),
                               (''package'', JStr ''@modelcontextprotocol/server-filesystem'')]]),
              (''github'', [JObj [(''name'', JStr ''mcp-server-demo''),
                                (''description'', JStr ''No description''),
                                (''type'', JStr ''git''),
                                (''repository'', JStr ''https://github.com/demo/mcp-server-demo.git''),
                                (''category'', JStr ''community''),
                                (''stars'', JNum 7),
                                (''language'', JStr ''Python''),
                                (''source'', JStr ''github'')]]),
              (''npm'', []),
              (''official'', [])]"
proof -
  have one: "discover_servers mixed_host (JArr [])
     = Inl (Exception (quoted ''list'' @ '' object has no attribute '' @ quoted ''get''))"
    by (simp add: discover_servers_def discover_servers_with_def local_servers_def json_get_def
          type_name_def)
  have two: "discover_servers mixed_host (JObj [(''servers'', JNull)])
       = Inl (Exception (quoted ''NoneType'' @ '' object has no attribute '' @ quoted ''values''))"
    by (simp add: discover_servers_def discover_servers_with_def local_servers_def json_get_def
          get_or_def type_name_def)
  have bad: "isl (github_server (JObj []))"
    by (simp add: github_server_def subscript_def)
  have local: "local_servers default_catalog
                 = Inr [JObj [(''name'', JStr ''Filesystem MCP Server''), (''type'', JStr ''npm''),
                              (''package'', JStr ''@modelcontextprotocol/server-filesystem'')]]"
    by (simp add: local_servers_def default_catalog_def json_get_def get_or_def)
  have github: "discover_github_servers half_host
                  = [JObj [(''name'', JStr ''mcp-server-demo''),
                           (''description'', JStr ''No description''),
                           (''type'', JStr ''git''),
                           (''repository'', JStr ''https://github.com/demo/mcp-server-demo.git''),
                           (''category'', JStr ''community''),
                           (''stars'', JNum 7),
                           (''language'', JStr ''Python''),
                           (''source'', JStr ''github'')]]"
    by (simp add: discover_github_servers_def half_host_def posix_host_def json_get_def
          get_or_def iterate_def github_server_def subscript_def demo_repo_def truthy_def)
  have npm: "discover_npm_servers half_host = []"
    by (simp add: discover_npm_servers_def half_host_def posix_host_def)
  have official: "discover_official_servers half_host = []"
    by (simp add: discover_official_servers_def half_host_def posix_host_def)
  have three: "discover_servers half_host default_catalog
       = Inr [(''local'', [JObj [(''name'', JStr ''Filesystem MCP Server''), (''type'', JStr ''npm''),
                               (''package'', JStr ''@modelcontextprotocol/server-filesystem'')]]),
              (''github'', discover_github_servers half_host),
              (''npm'', discover_npm_servers half_host),
              (''official'', discover_official_servers half_host)]"
    using local by (simp add: discover_servers_def discover_servers_with_entries)
  from one two bad show ?thesis by (simp add: three github npm official)
qed

end
